theory Spec2Isabelle
  imports Complex_Main "HOL-Library.Sublist"
begin

section \<open>The WebSocket service of the dashboard (services/websocket-service.js)\<close>

text \<open>
  \<open>createWebSocketService\<close> returns a closure over nine variables (\<open>socket\<close>,
  \<open>isConnected\<close>, \<open>messageHandlers\<close>, \<open>reconnectTimeout\<close>, \<open>reconnectDelay\<close>, \<open>url\<close>,
  \<open>connectionError\<close>, \<open>connectionAttempts\<close>, \<open>eventListeners\<close>). The embedding makes that
  closure a record and every function of the service a function on the record. What the
  JavaScript run time keeps for the service is made explicit in further fields: the
  transports that were opened and their \<open>readyState\<close>, the timers that are armed, and the
  calls of \<open>resolve\<close>, \<open>reject\<close>, \<open>socket.send\<close> and of the callbacks, each logged in the
  order in which the code makes them. The functions that a caller registers (event
  listeners, message handlers) do not call the service while they run.
\<close>

subsection \<open>Values on the wire\<close>

text \<open>A decoded JSON value; an object lists its properties, each key once.\<close>

datatype json =
    JNull
  | JBool bool
  | JNum int
  | JStr string
  | JArr "json list"
  | JObj "(string \<times> json) list"

text \<open>JavaScript's \<open>ToBoolean\<close>, as \<open>||\<close> and \<open>!\<close> apply it.\<close>

fun truthy :: "json \<Rightarrow> bool" where
  "truthy JNull = False"
| "truthy (JBool b) = b"
| "truthy (JNum n) = (n \<noteq> 0)"
| "truthy (JStr s) = (s \<noteq> [])"
| "truthy (JArr xs) = True"
| "truthy (JObj kvs) = True"

text \<open>
  Reading a property \<open>data.key\<close> of a decoded value that is not \<open>null\<close>; \<open>None\<close> is
  \<open>undefined\<close>. (Reading a property of \<open>null\<close> throws; \<open>handleMessage\<close> below has that case.)
\<close>

fun getProp :: "json \<Rightarrow> string \<Rightarrow> json option" where
  "getProp (JObj kvs) key = map_of kvs key"
| "getProp v key = None"

text \<open>\<open>value || dflt\<close> for a property that may be \<open>undefined\<close>.\<close>

definition orElse :: "json option \<Rightarrow> json \<Rightarrow> json" where
  "orElse v dflt = (case v of None \<Rightarrow> dflt | Some x \<Rightarrow> if truthy x then x else dflt)"

text \<open>
  An inbound frame: the text in \<open>event.data\<close> and what \<open>JSON.parse\<close> makes of it
  (\<open>None\<close> when it throws). The examples write the text without its quotation marks.
\<close>

datatype frame = Frame (rawData: string) (parsed: "json option")

subsection \<open>Errors, events, timers, handlers\<close>

datatype error =
    InvalidUrl string
  | ConnectionTimeout string
  | ConstructorThrew
  | ReferenceError
  | NotConnected
  | NotOpen
  | SendThrew
  | CloseThrew
  | HandlerThrew
  | TypeError
  | ResponseTimeout string
  | BadClientIds
  | BadDisplayData
  | BadPresetName

text \<open>The \<open>message\<close> of each error object the service creates itself.\<close>

fun errorMessage :: "string \<Rightarrow> error \<Rightarrow> string" where
  "errorMessage system (InvalidUrl u) =
     ''Invalid WebSocket URL: '' @ u @ ''. URL must start with ws:// or wss://''"
| "errorMessage system (ConnectionTimeout u) = ''Connection timeout for '' @ u"
| "errorMessage system NotConnected = system @ '' WebSocket not connected''"
| "errorMessage system NotOpen = system @ '' WebSocket not in OPEN state''"
| "errorMessage system (ResponseTimeout t) = ''Timeout waiting for '' @ t @ '' response''"
| "errorMessage system BadClientIds = ''Client IDs must be a non-empty array''"
| "errorMessage system BadDisplayData = ''Display data must be an object''"
| "errorMessage system BadPresetName = ''Preset name must be a non-empty string''"
| "errorMessage system ReferenceError = ''connectionTimeout is not defined''"
| "errorMessage system e = []"

datatype readyState = CONNECTING | OPEN | CLOSING | CLOSED

text \<open>The data handed to \<open>triggerEvent\<close>.\<close>

datatype evdata =
    ErrorObject error
  | ConnectInfo string
  | DisconnectInfo nat string bool
  | ReconnectInfo nat rat string
  | MessageData json
  | ParseError string
  | MaxReconnectAttempts
  | DisconnectError error
  | SendError error json "readyState option"
  | HandlerError error string json
  | TransportError string "readyState option"

text \<open>
  The options object of \<open>connect\<close> and of the request operations. \<open>timeout\<close> is in
  milliseconds; \<open>options.timeout || d\<close> takes the default for \<open>undefined\<close> and for \<open>0\<close>.
\<close>

record options =
  timeout :: "nat option"
  noReconnect :: bool
  unlimitedReconnect :: bool

definition noOptions :: options where
  "noOptions = \<lparr>timeout = None, noReconnect = False, unlimitedReconnect = False\<rparr>"

definition timeoutOr :: "options \<Rightarrow> nat \<Rightarrow> rat" where
  "timeoutOr opts d = (case timeout opts of None \<Rightarrow> of_nat d
                        | Some t \<Rightarrow> if t = 0 then of_nat d else of_nat t)"

datatype request = GetClients | GetPresets | UpdateDisplay | SavePreset | LoadPreset

fun replyType :: "request \<Rightarrow> string" where
  "replyType GetClients = ''client_list''"
| "replyType GetPresets = ''preset_list''"
| "replyType UpdateDisplay = ''display_updated''"
| "replyType SavePreset = ''preset_saved''"
| "replyType LoadPreset = ''preset_loaded''"

text \<open>
  A timer handle, as \<open>setTimeout\<close> returns it. The number is that of the call which armed
  the timer: the \<open>connect\<close> call, the \<open>scheduleReconnect\<close> call, the request.
\<close>

datatype timer = ConnectionTimer nat | ReconnectTimer nat | ResponseTimer nat request

text \<open>
  A function registered with \<open>onMessage\<close>. \<open>OneShot r q\<close> is the closure \<open>handler\<close> that
  request number \<open>r\<close> creates. \<open>Callback n b\<close> is a function of the caller, known by what
  it does when it runs: it returns, it throws, or it takes itself out of the table with
  \<open>offMessage\<close> and returns.
\<close>

datatype behaviour = Returns | Throws | RemovesItself

datatype handler = OneShot nat request | Callback nat behaviour

datatype outcome = Resolved | Rejected error

text \<open>What the run time keeps for one transport, with the \<open>options\<close> its handlers closed over.\<close>

record transport =
  readyState :: readyState
  opts :: options

subsection \<open>The state of one service\<close>

record service =
  socket :: "nat option"
  isConnected :: bool
  messageHandlers :: "string \<Rightarrow> handler list option"
  reconnectTimeout :: "timer option"
  reconnectDelay :: rat
  url :: string
  connectionError :: "evdata option"
  connectionAttempts :: nat
  eventListeners :: "string \<Rightarrow> nat list"
  transports :: "nat \<Rightarrow> transport"
  timers :: "timer \<Rightarrow> rat option"
  nextId :: nat
  retried :: "nat \<Rightarrow> bool"
  settled :: "(nat \<times> outcome) list"
  replies :: "(nat \<times> (error + json)) list"
  sent :: "(nat \<times> json) list"
  emitted :: "(string \<times> evdata) list"
  delivered :: "(nat \<times> string \<times> evdata) list"
  invoked :: "(nat \<times> json) list"

text \<open>
  \<open>transports\<close>: every \<open>WebSocket\<close> the service constructed, by the number of the
  \<open>connect\<close> call that constructed it (\<open>CLOSED\<close> for a number with no transport).
  \<open>timers\<close>: the armed timers with their delays in milliseconds. \<open>nextId\<close>: the number of the
  next call. \<open>retried c\<close>: the promise of \<open>connect\<close> call \<open>c\<close> carries the \<open>.catch\<close> of
  \<open>scheduleReconnect\<close>. \<open>settled\<close>: the calls of \<open>resolve\<close> and \<open>reject\<close> of the \<open>connect\<close>
  promises. \<open>replies\<close>: those of the request promises. \<open>sent\<close>: the calls of
  \<open>socket.send\<close>. \<open>emitted\<close>: the calls of \<open>triggerEvent\<close> for a known event. \<open>delivered\<close>:
  the event listeners called. \<open>invoked\<close>: the caller's message handlers called. A promise
  takes the first outcome logged for it.
\<close>

definition MAX_RECONNECT_ATTEMPTS :: nat where
  "MAX_RECONNECT_ATTEMPTS = 5"

definition MAX_RECONNECT_DELAY :: rat where
  "MAX_RECONNECT_DELAY = 30000"

definition eventNames :: "string list" where
  "eventNames = [''connect'', ''disconnect'', ''error'', ''reconnect'', ''message'']"

definition createWebSocketService :: service where
  "createWebSocketService =
     \<lparr>socket = None, isConnected = False, messageHandlers = (\<lambda>t. None),
      reconnectTimeout = None, reconnectDelay = 1000, url = [], connectionError = None,
      connectionAttempts = 0, eventListeners = (\<lambda>e. []),
      transports = (\<lambda>k. \<lparr>readyState = CLOSED, opts = noOptions\<rparr>), timers = (\<lambda>t. None),
      nextId = 0, retried = (\<lambda>c. False), settled = [], replies = [], sent = [],
      emitted = [], delivered = [], invoked = []\<rparr>"

subsection \<open>Event dispatcher\<close>

text \<open>
  \<open>eventListeners\<close> is an object literal with the five keys of \<open>eventNames\<close>. For a name
  that it inherits from \<open>Object.prototype\<close>, \<open>eventListeners[event]\<close> is a function or an
  object, which is truthy and has neither \<open>push\<close> nor \<open>indexOf\<close>: \<open>addEventListener\<close> and
  \<open>removeEventListener\<close> then throw a \<open>TypeError\<close> to their caller. For any other name
  they do nothing. (\<open>triggerEvent\<close> is called by the service only, with the five names.)
\<close>

definition inheritedNames :: "string list" where
  "inheritedNames =
     [''constructor'', ''__proto__'', ''hasOwnProperty'', ''isPrototypeOf'',
      ''propertyIsEnumerable'', ''toLocaleString'', ''toString'', ''valueOf'',
      ''__defineGetter__'', ''__defineSetter__'', ''__lookupGetter__'', ''__lookupSetter__'']"

definition addEventListener :: "string \<Rightarrow> nat \<Rightarrow> service \<Rightarrow> error + service" where
  "addEventListener event callback s =
     (if event \<in> set eventNames
      then Inr (s\<lparr>eventListeners := (eventListeners s)(event := eventListeners s event @ [callback])\<rparr>)
      else if event \<in> set inheritedNames then Inl TypeError
      else Inr s)"

definition removeEventListener :: "string \<Rightarrow> nat \<Rightarrow> service \<Rightarrow> error + service" where
  "removeEventListener event callback s =
     (if event \<in> set eventNames
      then Inr (s\<lparr>eventListeners := (eventListeners s)(event := remove1 callback (eventListeners s event))\<rparr>)
      else if event \<in> set inheritedNames then Inl TypeError
      else Inr s)"

text \<open>
  Each listener is called inside its own \<open>try\<close>; a listener that throws is logged on the
  console and the next one is called, so only the calls are recorded.
\<close>

definition triggerEvent :: "string \<Rightarrow> evdata \<Rightarrow> service \<Rightarrow> service" where
  "triggerEvent event d s =
     (if event \<in> set eventNames
      then s\<lparr>emitted := emitted s @ [(event, d)],
             delivered := delivered s @ map (\<lambda>callback. (callback, event, d)) (eventListeners s event)\<rparr>
      else s)"

subsection \<open>Timers, transports, promises\<close>

definition setTimeout :: "timer \<Rightarrow> rat \<Rightarrow> service \<Rightarrow> service" where
  "setTimeout t delay s = s\<lparr>timers := (timers s)(t \<mapsto> delay)\<rparr>"

definition clearTimeout :: "timer \<Rightarrow> service \<Rightarrow> service" where
  "clearTimeout t s = s\<lparr>timers := (timers s)(t := None)\<rparr>"

definition readyStateOf :: "service \<Rightarrow> nat \<Rightarrow> readyState" where
  "readyStateOf s k = readyState (transports s k)"

definition setReadyState :: "nat \<Rightarrow> readyState \<Rightarrow> service \<Rightarrow> service" where
  "setReadyState k r s = s\<lparr>transports := (transports s)(k := (transports s k)\<lparr>readyState := r\<rparr>)\<rparr>"

text \<open>\<open>WebSocket.close\<close>: an open or connecting transport starts closing, any other is left.\<close>

definition closeTransport :: "nat \<Rightarrow> service \<Rightarrow> service" where
  "closeTransport k s =
     (if readyStateOf s k = OPEN \<or> readyStateOf s k = CONNECTING
      then setReadyState k CLOSING s else s)"

text \<open>
  \<open>resolve\<close> and \<open>reject\<close> of the promise of \<open>connect\<close> call \<open>c\<close>. The \<open>.catch\<close> that
  \<open>scheduleReconnect\<close> attaches runs when that promise is rejected, which a promise is at
  most once and only if nothing settled it before: it multiplies the delay.
\<close>

definition resolveConnect :: "nat \<Rightarrow> service \<Rightarrow> service" where
  "resolveConnect c s = s\<lparr>settled := settled s @ [(c, Resolved)]\<rparr>"

definition rejectConnect :: "nat \<Rightarrow> error \<Rightarrow> service \<Rightarrow> service" where
  "rejectConnect c e s =
     (let s1 = s\<lparr>settled := settled s @ [(c, Rejected e)]\<rparr>
      in if retried s c \<and> c \<notin> fst ` set (settled s)
         then s1\<lparr>reconnectDelay := min (reconnectDelay s1 * (3 / 2)) MAX_RECONNECT_DELAY\<rparr>
         else s1)"

definition resolveRequest :: "nat \<Rightarrow> json \<Rightarrow> service \<Rightarrow> service" where
  "resolveRequest r v s = s\<lparr>replies := replies s @ [(r, Inr v)]\<rparr>"

definition rejectRequest :: "nat \<Rightarrow> error \<Rightarrow> service \<Rightarrow> service" where
  "rejectRequest r e s = s\<lparr>replies := replies s @ [(r, Inl e)]\<rparr>"


subsection \<open>Message router\<close>

definition onMessage :: "string \<Rightarrow> handler \<Rightarrow> service \<Rightarrow> service" where
  "onMessage messageType h s =
     s\<lparr>messageHandlers := (messageHandlers s)(messageType \<mapsto>
          (case messageHandlers s messageType of None \<Rightarrow> [] | Some hs \<Rightarrow> hs) @ [h])\<rparr>"

text \<open>\<open>indexOf\<close> and \<open>splice(index, 1)\<close> take out the first occurrence, if there is one.\<close>

definition offMessage :: "string \<Rightarrow> handler \<Rightarrow> service \<Rightarrow> service" where
  "offMessage messageType h s =
     (case messageHandlers s messageType of
        None \<Rightarrow> s
      | Some hs \<Rightarrow> s\<lparr>messageHandlers := (messageHandlers s)(messageType \<mapsto> remove1 h hs)\<rparr>)"

text \<open>What a one-shot handler resolves its request with.\<close>

fun replyValue :: "request \<Rightarrow> json \<Rightarrow> json" where
  "replyValue GetClients data = orElse (getProp data ''clients'') (JObj [])"
| "replyValue GetPresets data = orElse (getProp data ''presets'') (JArr [])"
| "replyValue UpdateDisplay data = data"
| "replyValue SavePreset data = data"
| "replyValue LoadPreset data = data"

text \<open>
  One call \<open>handler(data)\<close> inside the \<open>try\<close> of \<open>handleMessage\<close>, with the \<open>catch\<close> of that
  \<open>try\<close>. The one-shot handler takes itself out of the array, clears its timeout and
  resolves its request.
\<close>

fun callHandler :: "string \<Rightarrow> handler \<Rightarrow> json \<Rightarrow> service \<Rightarrow> service" where
  "callHandler messageType (OneShot r q) data s =
     resolveRequest r (replyValue q data)
       (clearTimeout (ResponseTimer r q) (offMessage (replyType q) (OneShot r q) s))"
| "callHandler messageType (Callback n Returns) data s =
     s\<lparr>invoked := invoked s @ [(n, data)]\<rparr>"
| "callHandler messageType (Callback n Throws) data s =
     triggerEvent ''error'' (HandlerError HandlerThrew messageType data)
       (s\<lparr>invoked := invoked s @ [(n, data)]\<rparr>)"
| "callHandler messageType (Callback n RemovesItself) data s =
     offMessage messageType (Callback n RemovesItself) (s\<lparr>invoked := invoked s @ [(n, data)]\<rparr>)"

text \<open>
  \<open>Array.prototype.forEach\<close> on the array of \<open>messageType\<close>, which the handlers may
  change while it runs: the length is read once, before the first call; index \<open>k\<close> is
  visited only if the array still has an element there, and the element is read then.
  \<open>forEachHandler messageType data n k\<close> makes the \<open>n\<close> visits from index \<open>k\<close> on.
\<close>

fun forEachHandler :: "string \<Rightarrow> json \<Rightarrow> nat \<Rightarrow> nat \<Rightarrow> service \<Rightarrow> service" where
  "forEachHandler messageType data 0 k s = s"
| "forEachHandler messageType data (Suc n) k s =
     forEachHandler messageType data n (Suc k)
       (case messageHandlers s messageType of
          None \<Rightarrow> s
        | Some hs \<Rightarrow> if k < length hs then callHandler messageType (hs ! k) data s else s)"

text \<open>
  \<open>data.type\<close> is a key of the table only if it is a string. \<open>handleMessage\<close> throws a
  \<open>TypeError\<close> when \<open>data\<close> is \<open>null\<close>, before it does anything: that is \<open>None\<close>.
\<close>

definition handleMessage :: "json \<Rightarrow> service \<Rightarrow> service option" where
  "handleMessage data s =
     (if data = JNull then None
      else case getProp data ''type'' of
             Some (JStr messageType) \<Rightarrow>
               (case messageHandlers s messageType of
                  None \<Rightarrow> Some s
                | Some hs \<Rightarrow> Some (forEachHandler messageType data (length hs) 0 s))
           | _ \<Rightarrow> Some s)"

subsection \<open>Connection lifecycle\<close>

text \<open>
  \<open>closeThrows\<close>: the call \<open>socket.close(1000, "Disconnected by client")\<close> throws, which
  leaves the transport as it was.
\<close>

definition disconnect :: "bool \<Rightarrow> service \<Rightarrow> service" where
  "disconnect closeThrows s =
     (let s1 = (case socket s of
                  None \<Rightarrow> s
                | Some k \<Rightarrow>
                    (if readyStateOf s k = OPEN \<or> readyStateOf s k = CONNECTING
                     then (if closeThrows
                           then triggerEvent ''error'' (DisconnectError CloseThrew) s
                           else closeTransport k s)
                     else s)\<lparr>socket := None, isConnected := False\<rparr>)
      in case reconnectTimeout s1 of
           None \<Rightarrow> s1
         | Some t \<Rightarrow> (clearTimeout t s1)\<lparr>reconnectTimeout := None\<rparr>)"

text \<open>
  \<open>connect\<close>, as call number \<open>nextId s\<close>. \<open>viaReconnect\<close>: the call is the one in the timer
  of \<open>scheduleReconnect\<close>, whose promise gets the \<open>.catch\<close>. \<open>constructorThrows\<close>:
  \<open>new WebSocket(url)\<close> throws. The \<open>catch\<close> block then reads \<open>connectionTimeout\<close>, which is
  declared inside the \<open>try\<close> block and not in scope: a \<open>ReferenceError\<close> leaves the executor
  and rejects the promise, before \<open>triggerEvent\<close> and \<open>reject(error)\<close> are reached.
\<close>

definition validUrl :: "string \<Rightarrow> bool" where
  "validUrl serverUrl = (prefix ''ws://'' serverUrl \<or> prefix ''wss://'' serverUrl)"

definition connect :: "string \<Rightarrow> options \<Rightarrow> bool \<Rightarrow> bool \<Rightarrow> service \<Rightarrow> service" where
  "connect serverUrl options viaReconnect constructorThrows s =
     (let c = nextId s;
          s0 = s\<lparr>nextId := Suc c, retried := (retried s)(c := viaReconnect)\<rparr>;
          s1 = (if socket s0 \<noteq> None then disconnect False s0 else s0);
          s2 = s1\<lparr>connectionError := None\<rparr>
      in if \<not> validUrl serverUrl
         then rejectConnect c (InvalidUrl serverUrl)
                (triggerEvent ''error'' (ErrorObject (InvalidUrl serverUrl))
                   (s2\<lparr>connectionError := Some (ErrorObject (InvalidUrl serverUrl))\<rparr>))
         else
           (let s3 = s2\<lparr>url := serverUrl, connectionAttempts := Suc (connectionAttempts s2)\<rparr>
            in if constructorThrows
               then rejectConnect c ReferenceError
                      (s3\<lparr>connectionError := Some (ErrorObject ConstructorThrew)\<rparr>)
               else setTimeout (ConnectionTimer c) (timeoutOr options 10000)
                      (s3\<lparr>socket := Some c,
                          transports := (transports s3)(c := \<lparr>readyState = CONNECTING, opts = options\<rparr>)\<rparr>)))"

text \<open>The callback of the connection timeout of call \<open>c\<close>.\<close>

definition connectionTimeout :: "nat \<Rightarrow> service \<Rightarrow> service" where
  "connectionTimeout c s =
     (if \<not> isConnected s
      then (let e = ConnectionTimeout (url s);
                s1 = triggerEvent ''error'' (ErrorObject e) (s\<lparr>connectionError := Some (ErrorObject e)\<rparr>);
                s2 = (case socket s1 of
                        None \<Rightarrow> s1
                      | Some k \<Rightarrow> if readyStateOf s1 k = CONNECTING
                                  then (closeTransport k s1)\<lparr>socket := None\<rparr> else s1)
            in rejectConnect c e s2)
      else s)"

definition onopen :: "nat \<Rightarrow> service \<Rightarrow> service" where
  "onopen c s =
     resolveConnect c
       (triggerEvent ''connect'' (ConnectInfo (url s))
          (clearTimeout (ConnectionTimer c)
             (s\<lparr>isConnected := True, connectionAttempts := 0, reconnectDelay := 1000\<rparr>)))"

definition scheduleReconnect :: "service \<Rightarrow> service" where
  "scheduleReconnect s =
     (let s1 = (case reconnectTimeout s of None \<Rightarrow> s | Some t \<Rightarrow> clearTimeout t s);
          t = ReconnectTimer (nextId s1)
      in setTimeout t (reconnectDelay s1) (s1\<lparr>reconnectTimeout := Some t, nextId := Suc (nextId s1)\<rparr>))"

definition onclose :: "nat \<Rightarrow> nat \<Rightarrow> string \<Rightarrow> bool \<Rightarrow> service \<Rightarrow> service" where
  "onclose c code reason wasClean s =
     (let s1 = triggerEvent ''disconnect'' (DisconnectInfo code reason wasClean)
                 (clearTimeout (ConnectionTimer c) (s\<lparr>isConnected := False\<rparr>))
      in if code \<noteq> 1000 \<and> \<not> noReconnect (opts (transports s1 c))
         then (if connectionAttempts s1 < MAX_RECONNECT_ATTEMPTS
                  \<or> unlimitedReconnect (opts (transports s1 c))
               then scheduleReconnect s1
               else triggerEvent ''error'' MaxReconnectAttempts s1)
         else s1)"

definition onerror :: "nat \<Rightarrow> service \<Rightarrow> service" where
  "onerror c s =
     (let detailedError = TransportError (url s)
            (case socket s of None \<Rightarrow> None | Some k \<Rightarrow> Some (readyStateOf s k))
      in triggerEvent ''error'' detailedError (s\<lparr>connectionError := Some detailedError\<rparr>))"

text \<open>
  \<open>socket.onmessage\<close>: whatever is thrown inside the \<open>try\<close>, by \<open>JSON.parse\<close> or by
  \<open>handleMessage\<close>, is reported as a parse error, and the \<open>message\<close> event is not fired.
\<close>

definition onmessage :: "frame \<Rightarrow> service \<Rightarrow> service" where
  "onmessage f s =
     (case parsed f of
        None \<Rightarrow> triggerEvent ''error'' (ParseError (rawData f)) s
      | Some data \<Rightarrow>
          (case handleMessage data s of
             None \<Rightarrow> triggerEvent ''error'' (ParseError (rawData f)) s
           | Some s1 \<Rightarrow> triggerEvent ''message'' (MessageData data) s1))"

text \<open>The callback of the timer of \<open>scheduleReconnect\<close>.\<close>

definition reconnectNow :: "bool \<Rightarrow> service \<Rightarrow> service" where
  "reconnectNow constructorThrows s =
     connect (url s) noOptions True constructorThrows
       (triggerEvent ''reconnect'' (ReconnectInfo (connectionAttempts s) (reconnectDelay s) (url s)) s)"

subsection \<open>Sending\<close>

text \<open>
  \<open>send\<close>, with the outcome of the promise it returns (\<open>None\<close>: resolved). \<open>sendThrows\<close>:
  \<open>JSON.stringify\<close> or \<open>socket.send\<close> throws.
\<close>

definition send :: "json \<Rightarrow> bool \<Rightarrow> service \<Rightarrow> error option \<times> service" where
  "send message sendThrows s =
     (if \<not> isConnected s
      then (Some NotConnected, triggerEvent ''error'' (SendError NotConnected message None) s)
      else case socket s of
             None \<Rightarrow> (Some NotOpen, triggerEvent ''error'' (SendError NotOpen message None) s)
           | Some k \<Rightarrow>
               if readyStateOf s k \<noteq> OPEN
               then (Some NotOpen,
                     triggerEvent ''error'' (SendError NotOpen message (Some (readyStateOf s k))) s)
               else if sendThrows
               then (Some SendThrew, triggerEvent ''error'' (SendError SendThrew message None) s)
               else (None, s\<lparr>sent := sent s @ [(k, message)]\<rparr>))"

subsection \<open>Request/response correlator\<close>

text \<open>
  The executor that the five request operations share, as request number \<open>nextId s\<close>:
  create and register the one-shot handler, arm the timeout, send, and in the \<open>.catch\<close> of
  the send clear the timeout and reject.
\<close>

definition awaitReply :: "request \<Rightarrow> options \<Rightarrow> json \<Rightarrow> bool \<Rightarrow> service \<Rightarrow> service" where
  "awaitReply q options message sendThrows s =
     (let r = nextId s;
          s1 = onMessage (replyType q) (OneShot r q) (s\<lparr>nextId := Suc r\<rparr>);
          s2 = setTimeout (ResponseTimer r q) (timeoutOr options 5000) s1
      in case send message sendThrows s2 of
           (None, s3) \<Rightarrow> s3
         | (Some e, s3) \<Rightarrow> rejectRequest r e (clearTimeout (ResponseTimer r q) s3))"

text \<open>A promise that is rejected where it is made, as request number \<open>nextId s\<close>.\<close>

definition rejectedPromise :: "error \<Rightarrow> service \<Rightarrow> service" where
  "rejectedPromise e s = rejectRequest (nextId s) e (s\<lparr>nextId := Suc (nextId s)\<rparr>)"

definition getClients :: "options \<Rightarrow> bool \<Rightarrow> service \<Rightarrow> service" where
  "getClients options sendThrows s =
     (if \<not> isConnected s then rejectedPromise NotConnected s
      else awaitReply GetClients options (JObj [(''type'', JStr ''get_clients'')]) sendThrows s)"

definition getPresets :: "options \<Rightarrow> bool \<Rightarrow> service \<Rightarrow> service" where
  "getPresets options sendThrows s =
     (if \<not> isConnected s then rejectedPromise NotConnected s
      else awaitReply GetPresets options (JObj [(''type'', JStr ''get_presets'')]) sendThrows s)"

fun nonEmptyArray :: "json \<Rightarrow> bool" where
  "nonEmptyArray (JArr xs) = (xs \<noteq> [])"
| "nonEmptyArray v = False"

text \<open>\<open>typeof v === "object"\<close> for a truthy \<open>v\<close>.\<close>

fun isObject :: "json \<Rightarrow> bool" where
  "isObject (JObj kvs) = True"
| "isObject (JArr xs) = True"
| "isObject v = False"

fun nonEmptyString :: "json \<Rightarrow> bool" where
  "nonEmptyString (JStr n) = (n \<noteq> [])"
| "nonEmptyString v = False"

definition updateDisplay :: "json \<Rightarrow> json \<Rightarrow> options \<Rightarrow> bool \<Rightarrow> service \<Rightarrow> service" where
  "updateDisplay clientIds displayData options sendThrows s =
     (if \<not> nonEmptyArray clientIds then rejectedPromise BadClientIds s
      else if \<not> isObject displayData then rejectedPromise BadDisplayData s
      else awaitReply UpdateDisplay options
             (JObj [(''type'', JStr ''update_display''), (''clients'', clientIds),
                    (''display'', displayData)]) sendThrows s)"

definition savePreset :: "json \<Rightarrow> options \<Rightarrow> bool \<Rightarrow> service \<Rightarrow> service" where
  "savePreset name options sendThrows s =
     (if \<not> nonEmptyString name then rejectedPromise BadPresetName s
      else awaitReply SavePreset options
             (JObj [(''type'', JStr ''save_preset''), (''name'', name)]) sendThrows s)"

definition loadPreset :: "json \<Rightarrow> options \<Rightarrow> bool \<Rightarrow> service \<Rightarrow> service" where
  "loadPreset name options sendThrows s =
     (if \<not> nonEmptyString name then rejectedPromise BadPresetName s
      else awaitReply LoadPreset options
             (JObj [(''type'', JStr ''load_preset''), (''name'', name)]) sendThrows s)"

text \<open>The callback of the response timeout of request \<open>r\<close>.\<close>

definition responseTimeout :: "nat \<Rightarrow> request \<Rightarrow> service \<Rightarrow> service" where
  "responseTimeout r q s =
     rejectRequest r (ResponseTimeout (replyType q)) (offMessage (replyType q) (OneShot r q) s)"

subsection \<open>Runs of the service\<close>

text \<open>
  What can happen to a service: a call of its interface, an event of one of its
  transports, a timer that fires. A transport opens only while it is connecting, closes
  once, and delivers frames only while it is open; a call that throws to its caller
  leaves the state as the call left it; a timer fires only while it is armed,
  and is no longer armed when its callback runs. Calls of \<open>close\<close> on a transport do not
  throw in a run (the service passes \<open>close\<close> a valid code and a short reason). The order
  of events is otherwise free: the delays of the timers are recorded and not compared.
  The \<open>bool\<close> of an event says whether \<open>new WebSocket\<close>, or \<open>JSON.stringify\<close> and
  \<open>socket.send\<close>, throw in it.
\<close>

datatype event =
    CallConnect string options bool
  | CallDisconnect
  | CallSend json bool
  | CallOnMessage string nat behaviour
  | CallOffMessage string nat behaviour
  | CallAddEventListener string nat
  | CallRemoveEventListener string nat
  | CallGetClients options bool
  | CallGetPresets options bool
  | CallUpdateDisplay json json options bool
  | CallSavePreset json options bool
  | CallLoadPreset json options bool
  | TransportOpens nat
  | TransportCloses nat nat string bool
  | TransportErrors nat
  | TransportReceives nat frame
  | TimerFires timer bool

fun timerCallback :: "timer \<Rightarrow> bool \<Rightarrow> service \<Rightarrow> service" where
  "timerCallback (ConnectionTimer c) constructorThrows s = connectionTimeout c s"
| "timerCallback (ReconnectTimer n) constructorThrows s = reconnectNow constructorThrows s"
| "timerCallback (ResponseTimer r q) constructorThrows s = responseTimeout r q s"

fun step :: "event \<Rightarrow> service \<Rightarrow> service option" where
  "step (CallConnect serverUrl options constructorThrows) s =
     Some (connect serverUrl options False constructorThrows s)"
| "step CallDisconnect s = Some (disconnect False s)"
| "step (CallSend message sendThrows) s = Some (snd (send message sendThrows s))"
| "step (CallOnMessage messageType n b) s = Some (onMessage messageType (Callback n b) s)"
| "step (CallOffMessage messageType n b) s = Some (offMessage messageType (Callback n b) s)"
| "step (CallAddEventListener e n) s =
     Some (case addEventListener e n s of Inl thrown \<Rightarrow> s | Inr s1 \<Rightarrow> s1)"
| "step (CallRemoveEventListener e n) s =
     Some (case removeEventListener e n s of Inl thrown \<Rightarrow> s | Inr s1 \<Rightarrow> s1)"
| "step (CallGetClients options sendThrows) s = Some (getClients options sendThrows s)"
| "step (CallGetPresets options sendThrows) s = Some (getPresets options sendThrows s)"
| "step (CallUpdateDisplay clientIds displayData options sendThrows) s =
     Some (updateDisplay clientIds displayData options sendThrows s)"
| "step (CallSavePreset name options sendThrows) s = Some (savePreset name options sendThrows s)"
| "step (CallLoadPreset name options sendThrows) s = Some (loadPreset name options sendThrows s)"
| "step (TransportOpens k) s =
     (if readyStateOf s k = CONNECTING then Some (onopen k (setReadyState k OPEN s)) else None)"
| "step (TransportCloses k code reason wasClean) s =
     (if readyStateOf s k \<noteq> CLOSED
      then Some (onclose k code reason wasClean (setReadyState k CLOSED s)) else None)"
| "step (TransportErrors k) s =
     (if readyStateOf s k \<noteq> CLOSED then Some (onerror k s) else None)"
| "step (TransportReceives k f) s =
     (if readyStateOf s k = OPEN then Some (onmessage f s) else None)"
| "step (TimerFires t constructorThrows) s =
     (if timers s t \<noteq> None then Some (timerCallback t constructorThrows (clearTimeout t s))
      else None)"

fun run :: "event list \<Rightarrow> service \<Rightarrow> service option" where
  "run [] s = Some s"
| "run (e # es) s = (case step e s of None \<Rightarrow> None | Some s1 \<Rightarrow> run es s1)"

subsection \<open>States used in examples\<close>

text \<open>
  \<open>connectedService\<close>: a new service after \<open>connect("ws://host")\<close> and the \<open>open\<close> event of
  its transport. \<open>lostService\<close>: the same after that transport closed with code 1006.
\<close>

definition connectedService :: service where
  "connectedService =
     onopen 0 (setReadyState 0 OPEN (connect ''ws://host'' noOptions False False createWebSocketService))"

definition lostService :: service where
  "lostService = onclose 0 1006 [] False (setReadyState 0 CLOSED connectedService)"

text \<open>
  \<open>awaitingService\<close>: the connected service after \<open>getClients()\<close> and then
  \<open>onMessage("client_list", f)\<close> for a function \<open>f\<close> of the caller that just returns.
\<close>

definition awaitingService :: service where
  "awaitingService =
     onMessage ''client_list'' (Callback 7 Returns) (getClients noOptions False connectedService)"

text \<open>
  \<open>twoPendingService\<close>: the connected service after two calls of \<open>getClients()\<close>, with no
  frame in between; they are requests 1 and 2.
\<close>

definition twoPendingService :: service where
  "twoPendingService = getClients noOptions False (getClients noOptions False connectedService)"

text \<open>
  \<open>retryingService\<close>: \<open>lostService\<close> after its reconnection timer fired and \<open>connect\<close> made
  transport 2. \<open>failedOnceService\<close>: the same after the connection timeout of that attempt
  fired and transport 2 closed with code 1006.
\<close>

definition retryingService :: service where
  "retryingService = reconnectNow False (clearTimeout (ReconnectTimer 1) lostService)"

definition failedOnceService :: service where
  "failedOnceService =
     onclose 2 1006 [] False
       (setReadyState 2 CLOSED (connectionTimeout 2 (clearTimeout (ConnectionTimer 2) retryingService)))"

text \<open>A handler that leaves the handler table alone when it runs.\<close>

fun leavesTable :: "handler \<Rightarrow> bool" where
  "leavesTable (Callback n Returns) = True"
| "leavesTable (Callback n Throws) = True"
| "leavesTable h = False"

subsection \<open>Attempts that fail\<close>

text \<open>
  The events of one failed attempt on transport \<open>k\<close>: either the connection timeout fires
  (which rejects the promise and closes the transport) or the transport reports an error;
  then the transport reports its close with a code. \<open>retries k fs\<close>: the events of
  successive failed attempts, the first on transport \<open>k\<close>; after each but the last the
  reconnection timer fires and \<open>connect\<close> makes the next transport.
\<close>

fun failedAttempt :: "nat \<Rightarrow> bool \<times> nat \<Rightarrow> event list" where
  "failedAttempt k (timedOut, code) =
     (if timedOut then [TimerFires (ConnectionTimer k) False] else [TransportErrors k])
       @ [TransportCloses k code [] False]"

fun retries :: "nat \<Rightarrow> (bool \<times> nat) list \<Rightarrow> event list" where
  "retries k [] = []"
| "retries k [f] = failedAttempt k f"
| "retries k (f # g # fs) =
     failedAttempt k f @ TimerFires (ReconnectTimer (Suc k)) False # retries (Suc (Suc k)) (g # fs)"

text \<open>
  The delay after the failures \<open>fs\<close>, computed as \<open>rejectConnect\<close> does: \<open>r\<close> says whether
  the first of the attempts was made by a reconnection timer.
\<close>

fun delayAfter :: "bool \<Rightarrow> rat \<Rightarrow> (bool \<times> nat) list \<Rightarrow> rat" where
  "delayAfter r d [] = d"
| "delayAfter r d ((timedOut, code) # fs) =
     delayAfter True (if r \<and> timedOut then min (d * (3 / 2)) MAX_RECONNECT_DELAY else d) fs"

text \<open>
  \<open>inFlight i k r d\<close>: attempt number \<open>i\<close> is under way on transport \<open>k\<close>, nothing else is
  armed, the delay is \<open>d\<close>. \<open>waiting i n d\<close>: after \<open>i\<close> attempts the reconnection timer \<open>n\<close>
  is armed with delay \<open>d\<close> and nothing else is. \<open>givenUp\<close>: after five attempts nothing is
  armed and the maximum-attempts error was fired once.
\<close>

definition inFlight :: "nat \<Rightarrow> nat \<Rightarrow> bool \<Rightarrow> rat \<Rightarrow> service \<Rightarrow> bool" where
  "inFlight i k r d s \<longleftrightarrow>
     socket s = Some k \<and> readyState (transports s k) = CONNECTING
   \<and> \<not> noReconnect (opts (transports s k)) \<and> \<not> unlimitedReconnect (opts (transports s k))
   \<and> timers s (ConnectionTimer k) \<noteq> None \<and> (\<forall>t. t \<noteq> ConnectionTimer k \<longrightarrow> timers s t = None)
   \<and> \<not> isConnected s \<and> connectionAttempts s = i \<and> nextId s = Suc k \<and> validUrl (url s)
   \<and> reconnectDelay s = d \<and> (\<forall>j. k \<le> j \<longrightarrow> j \<notin> fst ` set (settled s)) \<and> retried s k = r
   \<and> (''error'', MaxReconnectAttempts) \<notin> set (emitted s)"

definition waiting :: "nat \<Rightarrow> nat \<Rightarrow> rat \<Rightarrow> service \<Rightarrow> bool" where
  "waiting i n d s \<longleftrightarrow>
     reconnectTimeout s = Some (ReconnectTimer n) \<and> timers s (ReconnectTimer n) = Some d
   \<and> (\<forall>t. t \<noteq> ReconnectTimer n \<longrightarrow> timers s t = None)
   \<and> \<not> isConnected s \<and> connectionAttempts s = i \<and> nextId s = Suc n \<and> validUrl (url s)
   \<and> reconnectDelay s = d
   \<and> (\<forall>k. socket s = Some k \<longrightarrow> readyState (transports s k) = CLOSED)
   \<and> (\<forall>j. Suc n \<le> j \<longrightarrow> j \<notin> fst ` set (settled s))
   \<and> (''error'', MaxReconnectAttempts) \<notin> set (emitted s)"

definition givenUp :: "service \<Rightarrow> bool" where
  "givenUp s \<longleftrightarrow>
     (\<forall>t. timers s t = None) \<and> connectionAttempts s = 5
   \<and> filter (\<lambda>e. e = (''error'', MaxReconnectAttempts)) (emitted s) = [(''error'', MaxReconnectAttempts)]"

subsection \<open>An invariant of runs\<close>

text \<open>
  \<open>lifecycleInv\<close> holds of every state that a run reaches: a transport that is still
  connecting is the one in \<open>socket\<close>, and its \<open>connect\<close> promise is not settled; a
  \<open>connect\<close> promise whose connection timeout is armed is not settled; numbers not yet
  handed out have no transport, no timer and no promise; no \<open>connect\<close> promise was settled
  twice; a connected service has a socket handle and no connecting transport.
  \<open>sameLifecycle s s1\<close>: \<open>s1\<close> differs from \<open>s\<close> in nothing that the invariant reads, except
  that timers may be gone, the connected flag may be cleared and numbers may have been
  handed out.
\<close>

definition lifecycleInv :: "service \<Rightarrow> bool" where
  "lifecycleInv s \<longleftrightarrow>
     (\<forall>k. readyStateOf s k = CONNECTING \<longrightarrow> socket s = Some k \<and> k \<notin> fst ` set (settled s))
   \<and> (\<forall>k. timers s (ConnectionTimer k) \<noteq> None \<longrightarrow> k \<notin> fst ` set (settled s))
   \<and> (\<forall>k. nextId s \<le> k \<longrightarrow> readyStateOf s k = CLOSED \<and> timers s (ConnectionTimer k) = None
             \<and> k \<notin> fst ` set (settled s))
   \<and> distinct (map fst (settled s))
   \<and> (isConnected s \<longrightarrow> socket s \<noteq> None \<and> (\<forall>k. readyStateOf s k \<noteq> CONNECTING))"

definition sameLifecycle :: "service \<Rightarrow> service \<Rightarrow> bool" where
  "sameLifecycle s s1 \<longleftrightarrow>
     socket s1 = socket s \<and> (isConnected s1 \<longrightarrow> isConnected s) \<and> transports s1 = transports s
   \<and> settled s1 = settled s
   \<and> (\<forall>k. timers s1 (ConnectionTimer k) \<noteq> None \<longrightarrow> timers s (ConnectionTimer k) \<noteq> None)
   \<and> nextId s \<le> nextId s1"

section \<open>Properties\<close>

lemmas service_defs = triggerEvent_def eventNames_def setTimeout_def clearTimeout_def readyStateOf_def
  setReadyState_def closeTransport_def resolveConnect_def rejectConnect_def resolveRequest_def
  rejectRequest_def onMessage_def offMessage_def handleMessage_def disconnect_def validUrl_def
  connect_def connectionTimeout_def onopen_def scheduleReconnect_def onclose_def onerror_def
  onmessage_def reconnectNow_def send_def awaitReply_def rejectedPromise_def getClients_def
  getPresets_def updateDisplay_def savePreset_def loadPreset_def responseTimeout_def
  createWebSocketService_def noOptions_def timeoutOr_def MAX_RECONNECT_ATTEMPTS_def
  MAX_RECONNECT_DELAY_def orElse_def Let_def

subsection \<open>What each operation leaves unchanged\<close>

lemma triggerEvent_unchanged [simp]:
  "socket (triggerEvent event d s) = socket s"
  "isConnected (triggerEvent event d s) = isConnected s"
  "messageHandlers (triggerEvent event d s) = messageHandlers s"
  "reconnectTimeout (triggerEvent event d s) = reconnectTimeout s"
  "reconnectDelay (triggerEvent event d s) = reconnectDelay s"
  "url (triggerEvent event d s) = url s"
  "connectionError (triggerEvent event d s) = connectionError s"
  "connectionAttempts (triggerEvent event d s) = connectionAttempts s"
  "eventListeners (triggerEvent event d s) = eventListeners s"
  "transports (triggerEvent event d s) = transports s"
  "timers (triggerEvent event d s) = timers s"
  "nextId (triggerEvent event d s) = nextId s"
  "retried (triggerEvent event d s) = retried s"
  "settled (triggerEvent event d s) = settled s"
  "replies (triggerEvent event d s) = replies s"
  "sent (triggerEvent event d s) = sent s"
  "invoked (triggerEvent event d s) = invoked s"
  by (simp_all add: triggerEvent_def)

lemma setTimeout_unchanged [simp]:
  "socket (setTimeout t delay s) = socket s"
  "isConnected (setTimeout t delay s) = isConnected s"
  "messageHandlers (setTimeout t delay s) = messageHandlers s"
  "reconnectTimeout (setTimeout t delay s) = reconnectTimeout s"
  "reconnectDelay (setTimeout t delay s) = reconnectDelay s"
  "url (setTimeout t delay s) = url s"
  "connectionError (setTimeout t delay s) = connectionError s"
  "connectionAttempts (setTimeout t delay s) = connectionAttempts s"
  "eventListeners (setTimeout t delay s) = eventListeners s"
  "transports (setTimeout t delay s) = transports s"
  "nextId (setTimeout t delay s) = nextId s"
  "retried (setTimeout t delay s) = retried s"
  "settled (setTimeout t delay s) = settled s"
  "replies (setTimeout t delay s) = replies s"
  "sent (setTimeout t delay s) = sent s"
  "emitted (setTimeout t delay s) = emitted s"
  "delivered (setTimeout t delay s) = delivered s"
  "invoked (setTimeout t delay s) = invoked s"
  by (simp_all add: setTimeout_def)

lemma clearTimeout_unchanged [simp]:
  "socket (clearTimeout t s) = socket s"
  "isConnected (clearTimeout t s) = isConnected s"
  "messageHandlers (clearTimeout t s) = messageHandlers s"
  "reconnectTimeout (clearTimeout t s) = reconnectTimeout s"
  "reconnectDelay (clearTimeout t s) = reconnectDelay s"
  "url (clearTimeout t s) = url s"
  "connectionError (clearTimeout t s) = connectionError s"
  "connectionAttempts (clearTimeout t s) = connectionAttempts s"
  "eventListeners (clearTimeout t s) = eventListeners s"
  "transports (clearTimeout t s) = transports s"
  "nextId (clearTimeout t s) = nextId s"
  "retried (clearTimeout t s) = retried s"
  "settled (clearTimeout t s) = settled s"
  "replies (clearTimeout t s) = replies s"
  "sent (clearTimeout t s) = sent s"
  "emitted (clearTimeout t s) = emitted s"
  "delivered (clearTimeout t s) = delivered s"
  "invoked (clearTimeout t s) = invoked s"
  by (simp_all add: clearTimeout_def)

lemma setReadyState_unchanged [simp]:
  "socket (setReadyState k r s) = socket s"
  "isConnected (setReadyState k r s) = isConnected s"
  "messageHandlers (setReadyState k r s) = messageHandlers s"
  "reconnectTimeout (setReadyState k r s) = reconnectTimeout s"
  "reconnectDelay (setReadyState k r s) = reconnectDelay s"
  "url (setReadyState k r s) = url s"
  "connectionError (setReadyState k r s) = connectionError s"
  "connectionAttempts (setReadyState k r s) = connectionAttempts s"
  "eventListeners (setReadyState k r s) = eventListeners s"
  "timers (setReadyState k r s) = timers s"
  "nextId (setReadyState k r s) = nextId s"
  "retried (setReadyState k r s) = retried s"
  "settled (setReadyState k r s) = settled s"
  "replies (setReadyState k r s) = replies s"
  "sent (setReadyState k r s) = sent s"
  "emitted (setReadyState k r s) = emitted s"
  "delivered (setReadyState k r s) = delivered s"
  "invoked (setReadyState k r s) = invoked s"
  by (simp_all add: setReadyState_def)

lemma closeTransport_unchanged [simp]:
  "socket (closeTransport k s) = socket s"
  "isConnected (closeTransport k s) = isConnected s"
  "messageHandlers (closeTransport k s) = messageHandlers s"
  "reconnectTimeout (closeTransport k s) = reconnectTimeout s"
  "reconnectDelay (closeTransport k s) = reconnectDelay s"
  "url (closeTransport k s) = url s"
  "connectionError (closeTransport k s) = connectionError s"
  "connectionAttempts (closeTransport k s) = connectionAttempts s"
  "eventListeners (closeTransport k s) = eventListeners s"
  "timers (closeTransport k s) = timers s"
  "nextId (closeTransport k s) = nextId s"
  "retried (closeTransport k s) = retried s"
  "settled (closeTransport k s) = settled s"
  "replies (closeTransport k s) = replies s"
  "sent (closeTransport k s) = sent s"
  "emitted (closeTransport k s) = emitted s"
  "delivered (closeTransport k s) = delivered s"
  "invoked (closeTransport k s) = invoked s"
  by (simp_all add: closeTransport_def setReadyState_def)

lemma resolveConnect_unchanged [simp]:
  "socket (resolveConnect c s) = socket s"
  "isConnected (resolveConnect c s) = isConnected s"
  "messageHandlers (resolveConnect c s) = messageHandlers s"
  "reconnectTimeout (resolveConnect c s) = reconnectTimeout s"
  "reconnectDelay (resolveConnect c s) = reconnectDelay s"
  "url (resolveConnect c s) = url s"
  "connectionError (resolveConnect c s) = connectionError s"
  "connectionAttempts (resolveConnect c s) = connectionAttempts s"
  "eventListeners (resolveConnect c s) = eventListeners s"
  "transports (resolveConnect c s) = transports s"
  "timers (resolveConnect c s) = timers s"
  "nextId (resolveConnect c s) = nextId s"
  "retried (resolveConnect c s) = retried s"
  "replies (resolveConnect c s) = replies s"
  "sent (resolveConnect c s) = sent s"
  "emitted (resolveConnect c s) = emitted s"
  "delivered (resolveConnect c s) = delivered s"
  "invoked (resolveConnect c s) = invoked s"
  by (simp_all add: resolveConnect_def)

lemma rejectConnect_unchanged [simp]:
  "socket (rejectConnect c e s) = socket s"
  "isConnected (rejectConnect c e s) = isConnected s"
  "messageHandlers (rejectConnect c e s) = messageHandlers s"
  "reconnectTimeout (rejectConnect c e s) = reconnectTimeout s"
  "url (rejectConnect c e s) = url s"
  "connectionError (rejectConnect c e s) = connectionError s"
  "connectionAttempts (rejectConnect c e s) = connectionAttempts s"
  "eventListeners (rejectConnect c e s) = eventListeners s"
  "transports (rejectConnect c e s) = transports s"
  "timers (rejectConnect c e s) = timers s"
  "nextId (rejectConnect c e s) = nextId s"
  "retried (rejectConnect c e s) = retried s"
  "replies (rejectConnect c e s) = replies s"
  "sent (rejectConnect c e s) = sent s"
  "emitted (rejectConnect c e s) = emitted s"
  "delivered (rejectConnect c e s) = delivered s"
  "invoked (rejectConnect c e s) = invoked s"
  by (simp_all add: rejectConnect_def Let_def)

lemma resolveRequest_unchanged [simp]:
  "socket (resolveRequest r v s) = socket s"
  "isConnected (resolveRequest r v s) = isConnected s"
  "messageHandlers (resolveRequest r v s) = messageHandlers s"
  "reconnectTimeout (resolveRequest r v s) = reconnectTimeout s"
  "reconnectDelay (resolveRequest r v s) = reconnectDelay s"
  "url (resolveRequest r v s) = url s"
  "connectionError (resolveRequest r v s) = connectionError s"
  "connectionAttempts (resolveRequest r v s) = connectionAttempts s"
  "eventListeners (resolveRequest r v s) = eventListeners s"
  "transports (resolveRequest r v s) = transports s"
  "timers (resolveRequest r v s) = timers s"
  "nextId (resolveRequest r v s) = nextId s"
  "retried (resolveRequest r v s) = retried s"
  "settled (resolveRequest r v s) = settled s"
  "sent (resolveRequest r v s) = sent s"
  "emitted (resolveRequest r v s) = emitted s"
  "delivered (resolveRequest r v s) = delivered s"
  "invoked (resolveRequest r v s) = invoked s"
  by (simp_all add: resolveRequest_def)

lemma rejectRequest_unchanged [simp]:
  "socket (rejectRequest r e s) = socket s"
  "isConnected (rejectRequest r e s) = isConnected s"
  "messageHandlers (rejectRequest r e s) = messageHandlers s"
  "reconnectTimeout (rejectRequest r e s) = reconnectTimeout s"
  "reconnectDelay (rejectRequest r e s) = reconnectDelay s"
  "url (rejectRequest r e s) = url s"
  "connectionError (rejectRequest r e s) = connectionError s"
  "connectionAttempts (rejectRequest r e s) = connectionAttempts s"
  "eventListeners (rejectRequest r e s) = eventListeners s"
  "transports (rejectRequest r e s) = transports s"
  "timers (rejectRequest r e s) = timers s"
  "nextId (rejectRequest r e s) = nextId s"
  "retried (rejectRequest r e s) = retried s"
  "settled (rejectRequest r e s) = settled s"
  "sent (rejectRequest r e s) = sent s"
  "emitted (rejectRequest r e s) = emitted s"
  "delivered (rejectRequest r e s) = delivered s"
  "invoked (rejectRequest r e s) = invoked s"
  by (simp_all add: rejectRequest_def)

lemma onMessage_unchanged [simp]:
  "socket (onMessage messageType h s) = socket s"
  "isConnected (onMessage messageType h s) = isConnected s"
  "reconnectTimeout (onMessage messageType h s) = reconnectTimeout s"
  "reconnectDelay (onMessage messageType h s) = reconnectDelay s"
  "url (onMessage messageType h s) = url s"
  "connectionError (onMessage messageType h s) = connectionError s"
  "connectionAttempts (onMessage messageType h s) = connectionAttempts s"
  "eventListeners (onMessage messageType h s) = eventListeners s"
  "transports (onMessage messageType h s) = transports s"
  "timers (onMessage messageType h s) = timers s"
  "nextId (onMessage messageType h s) = nextId s"
  "retried (onMessage messageType h s) = retried s"
  "settled (onMessage messageType h s) = settled s"
  "replies (onMessage messageType h s) = replies s"
  "sent (onMessage messageType h s) = sent s"
  "emitted (onMessage messageType h s) = emitted s"
  "delivered (onMessage messageType h s) = delivered s"
  "invoked (onMessage messageType h s) = invoked s"
  by (simp_all add: onMessage_def)

lemma offMessage_unchanged [simp]:
  "socket (offMessage messageType h s) = socket s"
  "isConnected (offMessage messageType h s) = isConnected s"
  "reconnectTimeout (offMessage messageType h s) = reconnectTimeout s"
  "reconnectDelay (offMessage messageType h s) = reconnectDelay s"
  "url (offMessage messageType h s) = url s"
  "connectionError (offMessage messageType h s) = connectionError s"
  "connectionAttempts (offMessage messageType h s) = connectionAttempts s"
  "eventListeners (offMessage messageType h s) = eventListeners s"
  "transports (offMessage messageType h s) = transports s"
  "timers (offMessage messageType h s) = timers s"
  "nextId (offMessage messageType h s) = nextId s"
  "retried (offMessage messageType h s) = retried s"
  "settled (offMessage messageType h s) = settled s"
  "replies (offMessage messageType h s) = replies s"
  "sent (offMessage messageType h s) = sent s"
  "emitted (offMessage messageType h s) = emitted s"
  "delivered (offMessage messageType h s) = delivered s"
  "invoked (offMessage messageType h s) = invoked s"
  by (simp_all add: offMessage_def split: option.splits)

lemma disconnect_unchanged [simp]:
  "messageHandlers (disconnect closeThrows s) = messageHandlers s"
  "reconnectDelay (disconnect closeThrows s) = reconnectDelay s"
  "url (disconnect closeThrows s) = url s"
  "connectionError (disconnect closeThrows s) = connectionError s"
  "connectionAttempts (disconnect closeThrows s) = connectionAttempts s"
  "eventListeners (disconnect closeThrows s) = eventListeners s"
  "nextId (disconnect closeThrows s) = nextId s"
  "retried (disconnect closeThrows s) = retried s"
  "settled (disconnect closeThrows s) = settled s"
  "replies (disconnect closeThrows s) = replies s"
  "sent (disconnect closeThrows s) = sent s"
  "invoked (disconnect closeThrows s) = invoked s"
  by (simp_all add: disconnect_def Let_def triggerEvent_def closeTransport_def setReadyState_def clearTimeout_def split: option.splits)

lemma scheduleReconnect_unchanged [simp]:
  "socket (scheduleReconnect s) = socket s"
  "isConnected (scheduleReconnect s) = isConnected s"
  "messageHandlers (scheduleReconnect s) = messageHandlers s"
  "reconnectDelay (scheduleReconnect s) = reconnectDelay s"
  "url (scheduleReconnect s) = url s"
  "connectionError (scheduleReconnect s) = connectionError s"
  "connectionAttempts (scheduleReconnect s) = connectionAttempts s"
  "eventListeners (scheduleReconnect s) = eventListeners s"
  "transports (scheduleReconnect s) = transports s"
  "retried (scheduleReconnect s) = retried s"
  "settled (scheduleReconnect s) = settled s"
  "replies (scheduleReconnect s) = replies s"
  "sent (scheduleReconnect s) = sent s"
  "emitted (scheduleReconnect s) = emitted s"
  "delivered (scheduleReconnect s) = delivered s"
  "invoked (scheduleReconnect s) = invoked s"
  by (simp_all add: scheduleReconnect_def Let_def setTimeout_def clearTimeout_def split: option.splits)

subsection \<open>What each operation changes\<close>

lemma known_events [simp]:
  "''connect'' \<in> set eventNames" "''disconnect'' \<in> set eventNames" "''error'' \<in> set eventNames"
  "''reconnect'' \<in> set eventNames" "''message'' \<in> set eventNames"
  by (simp_all add: eventNames_def)

lemma triggerEvent_emitted [simp]:
  "event \<in> set eventNames \<Longrightarrow> emitted (triggerEvent event d s) = emitted s @ [(event, d)]"
  by (simp add: triggerEvent_def)

lemma timers_changed [simp]:
  "timers (setTimeout t delay s) = (timers s)(t \<mapsto> delay)"
  "timers (clearTimeout t s) = (timers s)(t := None)"
  by (simp_all add: setTimeout_def clearTimeout_def)

lemma readyState_setReadyState [simp]:
  "readyState (transports (setReadyState k r s) j) = (if j = k then r else readyState (transports s j))"
  by (simp add: setReadyState_def)

lemma readyState_closeTransport [simp]:
  "readyState (transports (closeTransport k s) j) =
     (if j = k \<and> (readyState (transports s k) = OPEN \<or> readyState (transports s k) = CONNECTING)
      then CLOSING else readyState (transports s j))"
  by (simp add: closeTransport_def readyStateOf_def setReadyState_def)

lemma opts_transports [simp]:
  "opts (transports (setReadyState k r s) j) = opts (transports s j)"
  "opts (transports (closeTransport k s) j) = opts (transports s j)"
  by (simp_all add: closeTransport_def setReadyState_def)

lemma settled_changed [simp]:
  "settled (resolveConnect c s) = settled s @ [(c, Resolved)]"
  "settled (rejectConnect c e s) = settled s @ [(c, Rejected e)]"
  by (simp_all add: resolveConnect_def rejectConnect_def Let_def)

lemma reconnectDelay_rejectConnect:
  "reconnectDelay (rejectConnect c e s) =
     (if retried s c \<and> c \<notin> fst ` set (settled s)
      then min (reconnectDelay s * (3 / 2)) MAX_RECONNECT_DELAY else reconnectDelay s)"
  by (simp add: rejectConnect_def Let_def)

lemma replies_changed [simp]:
  "replies (resolveRequest r v s) = replies s @ [(r, Inr v)]"
  "replies (rejectRequest r e s) = replies s @ [(r, Inl e)]"
  by (simp_all add: resolveRequest_def rejectRequest_def)

lemma messageHandlers_onMessage [simp]:
  "messageHandlers (onMessage messageType h s) =
     (messageHandlers s)(messageType \<mapsto>
        (case messageHandlers s messageType of None \<Rightarrow> [] | Some hs \<Rightarrow> hs) @ [h])"
  by (simp add: onMessage_def)

lemma messageHandlers_offMessage:
  "messageHandlers (offMessage messageType h s) =
     (case messageHandlers s messageType of
        None \<Rightarrow> messageHandlers s
      | Some hs \<Rightarrow> (messageHandlers s)(messageType \<mapsto> remove1 h hs))"
  by (simp add: offMessage_def split: option.splits)

lemma disconnect_changed [simp]:
  "socket (disconnect closeThrows s) = None"
  "reconnectTimeout (disconnect closeThrows s) = None"
  "isConnected (disconnect closeThrows s) = (socket s = None \<and> isConnected s)"
  "timers (disconnect closeThrows s) =
     (case reconnectTimeout s of None \<Rightarrow> timers s | Some t \<Rightarrow> (timers s)(t := None))"
  by (simp_all add: disconnect_def Let_def clearTimeout_def split: option.splits)

lemma readyState_disconnect [simp]:
  "readyState (transports (disconnect closeThrows s) j) =
     (if socket s = Some j \<and> \<not> closeThrows
         \<and> (readyState (transports s j) = OPEN \<or> readyState (transports s j) = CONNECTING)
      then CLOSING else readyState (transports s j))"
  by (simp add: disconnect_def Let_def clearTimeout_def readyStateOf_def closeTransport_def
        setReadyState_def triggerEvent_def split: option.splits)

lemma opts_disconnect [simp]:
  "opts (transports (disconnect closeThrows s) j) = opts (transports s j)"
  by (simp add: disconnect_def Let_def clearTimeout_def readyStateOf_def closeTransport_def
        setReadyState_def triggerEvent_def split: option.splits)

lemma emitted_disconnect:
  "emitted (disconnect closeThrows s) =
     (case socket s of
        None \<Rightarrow> emitted s
      | Some k \<Rightarrow> if closeThrows \<and> (readyState (transports s k) = OPEN
                                      \<or> readyState (transports s k) = CONNECTING)
                  then emitted s @ [(''error'', DisconnectError CloseThrew)] else emitted s)"
  by (simp add: disconnect_def Let_def clearTimeout_def closeTransport_def readyStateOf_def
        setReadyState_def split: option.splits)

lemma scheduleReconnect_changed [simp]:
  "nextId (scheduleReconnect s) = Suc (nextId s)"
  "reconnectTimeout (scheduleReconnect s) = Some (ReconnectTimer (nextId s))"
  "timers (scheduleReconnect s) =
     (case reconnectTimeout s of None \<Rightarrow> timers s | Some t \<Rightarrow> (timers s)(t := None))
       (ReconnectTimer (nextId s) \<mapsto> reconnectDelay s)"
  by (simp_all add: scheduleReconnect_def Let_def setTimeout_def clearTimeout_def split: option.splits)

lemma new_service [simp]:
  "socket createWebSocketService = None" "\<not> isConnected createWebSocketService"
  "messageHandlers createWebSocketService = (\<lambda>t. None)"
  "reconnectTimeout createWebSocketService = None" "reconnectDelay createWebSocketService = 1000"
  "connectionAttempts createWebSocketService = 0" "timers createWebSocketService = (\<lambda>t. None)"
  "nextId createWebSocketService = 0" "settled createWebSocketService = []"
  "emitted createWebSocketService = []" "retried createWebSocketService = (\<lambda>c. False)"
  "replies createWebSocketService = []" "sent createWebSocketService = []"
  by (simp_all add: createWebSocketService_def)

lemma connect_invalid:
  "\<not> validUrl serverUrl \<Longrightarrow>
     connect serverUrl options viaReconnect constructorThrows s =
       rejectConnect (nextId s) (InvalidUrl serverUrl)
         (triggerEvent ''error'' (ErrorObject (InvalidUrl serverUrl))
            ((if socket s \<noteq> None
              then disconnect False (s\<lparr>nextId := Suc (nextId s), retried := (retried s)(nextId s := viaReconnect)\<rparr>)
              else s\<lparr>nextId := Suc (nextId s), retried := (retried s)(nextId s := viaReconnect)\<rparr>)
             \<lparr>connectionError := Some (ErrorObject (InvalidUrl serverUrl))\<rparr>))"
  by (simp add: connect_def Let_def)

lemma connect_valid:
  "validUrl serverUrl \<Longrightarrow>
     connect serverUrl options viaReconnect constructorThrows s =
       (let c = nextId s;
            s0 = s\<lparr>nextId := Suc c, retried := (retried s)(c := viaReconnect)\<rparr>;
            s3 = (if socket s \<noteq> None then disconnect False s0 else s0)
                   \<lparr>connectionError := None, url := serverUrl,
                    connectionAttempts := Suc (connectionAttempts s)\<rparr>
        in if constructorThrows
           then rejectConnect c ReferenceError (s3\<lparr>connectionError := Some (ErrorObject ConstructorThrew)\<rparr>)
           else setTimeout (ConnectionTimer c) (timeoutOr options 10000)
                  (s3\<lparr>socket := Some c,
                      transports := (transports s3)(c := \<lparr>readyState = CONNECTING, opts = options\<rparr>)\<rparr>))"
  by (simp add: connect_def Let_def)

subsection \<open>Requests on a service that is not connected\<close>

text \<open>
  C10. On a service that is not connected, \<open>getClients\<close> and \<open>getPresets\<close> change nothing of
  the service: their promise is rejected with the "not connected" error, no handler is
  registered, no timer armed, nothing sent and no event fired. \<open>updateDisplay\<close>, \<open>savePreset\<close>
  and \<open>loadPreset\<close> have no such check: with valid arguments they register their one-shot
  handler, and their promise is rejected with the error of \<open>send\<close>.
\<close>

theorem not_connected_precheck:
  "\<not> isConnected s \<Longrightarrow>
     getClients options sendThrows s
       = s\<lparr>nextId := Suc (nextId s), replies := replies s @ [(nextId s, Inl NotConnected)]\<rparr>
   \<and> getPresets options sendThrows s
       = s\<lparr>nextId := Suc (nextId s), replies := replies s @ [(nextId s, Inl NotConnected)]\<rparr>
   \<and> (nonEmptyArray clientIds \<and> isObject displayData \<longrightarrow>
        OneShot (nextId s) UpdateDisplay
          \<in> set (the (messageHandlers (updateDisplay clientIds displayData options sendThrows s) ''display_updated''))
        \<and> replies (updateDisplay clientIds displayData options sendThrows s)
            = replies s @ [(nextId s, Inl NotConnected)])
   \<and> (nonEmptyString name \<longrightarrow>
        OneShot (nextId s) SavePreset
          \<in> set (the (messageHandlers (savePreset name options sendThrows s) ''preset_saved''))
        \<and> replies (savePreset name options sendThrows s) = replies s @ [(nextId s, Inl NotConnected)]
        \<and> OneShot (nextId s) LoadPreset
          \<in> set (the (messageHandlers (loadPreset name options sendThrows s) ''preset_loaded''))
        \<and> replies (loadPreset name options sendThrows s) = replies s @ [(nextId s, Inl NotConnected)])"
  by (simp add: getClients_def getPresets_def updateDisplay_def savePreset_def loadPreset_def
        rejectedPromise_def rejectRequest_def awaitReply_def send_def onMessage_def setTimeout_def
        clearTimeout_def triggerEvent_def eventNames_def Let_def)

theorem not_connected_precheck_witness:
  "\<not> isConnected createWebSocketService
   \<and> replies (getClients noOptions False createWebSocketService) = [(0, Inl NotConnected)]
   \<and> messageHandlers (getClients noOptions False createWebSocketService) ''client_list'' = None
   \<and> sent (getPresets noOptions False createWebSocketService) = []
   \<and> messageHandlers (updateDisplay (JArr [JStr ''a'']) (JObj []) noOptions False createWebSocketService)
        ''display_updated'' = Some [OneShot 0 UpdateDisplay]"
  using not_connected_precheck [of createWebSocketService noOptions False "JArr [JStr ''a'']" "JObj []" "JStr ''p''"]
  by (simp add: createWebSocketService_def updateDisplay_def awaitReply_def send_def onMessage_def setTimeout_def
        clearTimeout_def triggerEvent_def eventNames_def rejectRequest_def Let_def)

subsection \<open>A send that fails\<close>

text \<open>
  C1. \<open>updateDisplay(["a"], {})\<close> on a new service: \<open>send\<close> rejects because the service is
  not connected. The \<open>.catch\<close> clears the timeout and rejects the promise with the error of
  \<open>send\<close>, and the one-shot handler is still in the table afterwards.
\<close>

theorem send_failure_leaves_handler:
  "messageHandlers (updateDisplay (JArr [JStr ''a'']) (JObj []) noOptions False createWebSocketService)
     ''display_updated'' = Some [OneShot 0 UpdateDisplay]
   \<and> timers (updateDisplay (JArr [JStr ''a'']) (JObj []) noOptions False createWebSocketService)
       (ResponseTimer 0 UpdateDisplay) = None
   \<and> replies (updateDisplay (JArr [JStr ''a'']) (JObj []) noOptions False createWebSocketService)
       = [(0, Inl NotConnected)]"
  by (simp add: service_defs)

subsection \<open>\<open>getClients\<close>: the reply and the timeout\<close>

text \<open>The loop of \<open>handleMessage\<close> over handlers that leave the table alone.\<close>

lemma forEachHandler_add:
  "forEachHandler messageType data (n + m) k s
     = forEachHandler messageType data m (k + n) (forEachHandler messageType data n k s)"
  by (induction n arbitrary: k s) simp_all

lemma callHandler_leavesTable:
  "leavesTable h \<Longrightarrow>
     messageHandlers (callHandler messageType h data s) = messageHandlers s
   \<and> timers (callHandler messageType h data s) = timers s
   \<and> replies (callHandler messageType h data s) = replies s"
  by (cases "(messageType, h, data, s)" rule: callHandler.cases) simp_all

lemma forEachHandler_leavesTable:
  "messageHandlers s messageType = Some hs \<Longrightarrow>
   \<forall>i. k \<le> i \<and> i < k + n \<and> i < length hs \<longrightarrow> leavesTable (hs ! i) \<Longrightarrow>
     messageHandlers (forEachHandler messageType data n k s) = messageHandlers s
   \<and> timers (forEachHandler messageType data n k s) = timers s
   \<and> replies (forEachHandler messageType data n k s) = replies s"
proof (induction n arbitrary: k s)
  case 0
  then show ?case by simp
next
  case (Suc n)
  let ?s1 = "if k < length hs then callHandler messageType (hs ! k) data s else s"
  have same: "messageHandlers ?s1 = messageHandlers s \<and> timers ?s1 = timers s \<and> replies ?s1 = replies s"
    using Suc.prems(2) by (simp add: callHandler_leavesTable)
  have "messageHandlers ?s1 messageType = Some hs"
    using same Suc.prems(1) by simp
  moreover have "\<forall>i. Suc k \<le> i \<and> i < Suc k + n \<and> i < length hs \<longrightarrow> leavesTable (hs ! i)"
    using Suc.prems(2) by simp
  ultimately have "messageHandlers (forEachHandler messageType data n (Suc k) ?s1) = messageHandlers ?s1
   \<and> timers (forEachHandler messageType data n (Suc k) ?s1) = timers ?s1
   \<and> replies (forEachHandler messageType data n (Suc k) ?s1) = replies ?s1"
    by (rule Suc.IH)
  then show ?case using same Suc.prems(1) by simp
qed

text \<open>
  What \<open>getClients\<close> does when the handlers \<open>hs\<close> that are registered for \<open>client_list\<close>
  before it leave the table alone: on a connected service whose transport is open it sends
  \<open>{type: "get_clients"}\<close>, registers its one-shot handler after \<open>hs\<close> and arms a timeout
  (5000 ms when the options give none). When a frame of type \<open>client_list\<close> arrives next,
  the promise is resolved with \<open>data.clients || {}\<close>, the handler is taken out of the table
  and the timeout is cleared. When the timeout fires instead, the promise is rejected with
  the error "Timeout waiting for client_list response" and the handler is taken out of the
  table.
\<close>

lemma getClients_reply_or_timeout:
  assumes connected: "isConnected s" "socket s = Some k" "readyStateOf s k = OPEN"
    and table: "messageHandlers s ''client_list'' = Some hs
                \<or> messageHandlers s ''client_list'' = None \<and> hs = []"
    and others: "\<forall>h \<in> set hs. leavesTable h"
    and frame: "getProp data ''type'' = Some (JStr ''client_list'')"
    and s1: "s1 = getClients options False s"
    and s2: "s2 = onmessage (Frame raw (Some data)) s1"
    and s3: "s3 = responseTimeout (nextId s) GetClients
                    (clearTimeout (ResponseTimer (nextId s) GetClients) s1)"
  shows "sent s1 = sent s @ [(k, JObj [(''type'', JStr ''get_clients'')])]
    \<and> messageHandlers s1 ''client_list'' = Some (hs @ [OneShot (nextId s) GetClients])
    \<and> timers s1 (ResponseTimer (nextId s) GetClients) = Some (timeoutOr options 5000)
    \<and> timeoutOr noOptions 5000 = 5000
    \<and> replies s1 = replies s
    \<and> step (TransportReceives k (Frame raw (Some data))) s1 = Some s2
    \<and> replies s2 = replies s @ [(nextId s, Inr (orElse (getProp data ''clients'') (JObj [])))]
    \<and> (\<forall>clients. getProp data ''clients'' = Some (JObj clients)
          \<longrightarrow> replies s2 = replies s @ [(nextId s, Inr (JObj clients))])
    \<and> (getProp data ''clients'' = None \<longrightarrow> replies s2 = replies s @ [(nextId s, Inr (JObj []))])
    \<and> messageHandlers s2 ''client_list'' = Some hs
    \<and> timers s2 (ResponseTimer (nextId s) GetClients) = None
    \<and> step (TimerFires (ResponseTimer (nextId s) GetClients) constructorThrows) s1 = Some s3
    \<and> replies s3 = replies s @ [(nextId s, Inl (ResponseTimeout ''client_list''))]
    \<and> errorMessage system (ResponseTimeout ''client_list'') = ''Timeout waiting for client_list response''
    \<and> messageHandlers s3 ''client_list'' = Some hs
    \<and> OneShot (nextId s) GetClients \<notin> set hs"
proof -
  let ?h = "OneShot (nextId s) GetClients"
  let ?t = "ResponseTimer (nextId s) GetClients"
  have fresh: "?h \<notin> set hs"
    using others by auto
  have hs: "(case messageHandlers s ''client_list'' of None \<Rightarrow> [] | Some hs \<Rightarrow> hs) = hs"
    using table by auto
  have s1_eq: "s1 = setTimeout ?t (timeoutOr options 5000)
                       (onMessage ''client_list'' ?h (s\<lparr>nextId := Suc (nextId s)\<rparr>))
                     \<lparr>sent := sent s @ [(k, JObj [(''type'', JStr ''get_clients'')])]\<rparr>"
    using connected by (simp add: s1 getClients_def awaitReply_def send_def Let_def readyStateOf_def)
  have a: "sent s1 = sent s @ [(k, JObj [(''type'', JStr ''get_clients'')])]"
    "messageHandlers s1 ''client_list'' = Some (hs @ [?h])"
    "timers s1 ?t = Some (timeoutOr options 5000)"
    "replies s1 = replies s" "readyStateOf s1 k = OPEN"
    using connected hs by (simp_all add: s1_eq readyStateOf_def)
  have d: "timeoutOr noOptions 5000 = 5000"
    by (simp add: timeoutOr_def noOptions_def)
  \<comment> \<open>the reply\<close>
  let ?sA = "forEachHandler ''client_list'' data (length hs) 0 s1"
  have "\<forall>i. 0 \<le> i \<and> i < 0 + length hs \<and> i < length (hs @ [?h]) \<longrightarrow> leavesTable ((hs @ [?h]) ! i)"
    using others by (simp add: nth_append)
  with a(2) have sA: "messageHandlers ?sA = messageHandlers s1 \<and> timers ?sA = timers s1
      \<and> replies ?sA = replies s1"
    by (rule forEachHandler_leavesTable)
  have loop: "forEachHandler ''client_list'' data (length (hs @ [?h])) 0 s1
        = callHandler ''client_list'' ?h data ?sA"
    using forEachHandler_add [of "''client_list''" data "length hs" 1 0 s1] sA a(2) by simp
  have data: "data \<noteq> JNull"
    using frame by auto
  have hm: "handleMessage data s1 = Some (callHandler ''client_list'' ?h data ?sA)"
    using frame data a(2) loop by (simp add: handleMessage_def)
  have s2_eq: "s2 = triggerEvent ''message'' (MessageData data) (callHandler ''client_list'' ?h data ?sA)"
    by (simp add: s2 onmessage_def hm)
  have b: "replies s2 = replies s @ [(nextId s, Inr (orElse (getProp data ''clients'') (JObj [])))]"
    "messageHandlers s2 ''client_list'' = Some hs" "timers s2 ?t = None"
    using sA a fresh by (simp_all add: s2_eq messageHandlers_offMessage remove1_append)
  have b': "\<forall>clients. getProp data ''clients'' = Some (JObj clients)
          \<longrightarrow> replies s2 = replies s @ [(nextId s, Inr (JObj clients))]"
    "getProp data ''clients'' = None \<longrightarrow> replies s2 = replies s @ [(nextId s, Inr (JObj []))]"
    by (simp_all add: b(1) orElse_def)
  have st2: "step (TransportReceives k (Frame raw (Some data))) s1 = Some s2"
    using a(5) by (simp add: s2)
  \<comment> \<open>the timeout\<close>
  have st3: "step (TimerFires ?t constructorThrows) s1 = Some s3"
    using a(3) by (simp add: s3)
  have c: "replies s3 = replies s @ [(nextId s, Inl (ResponseTimeout ''client_list''))]"
    "messageHandlers s3 ''client_list'' = Some hs"
    using a fresh by (simp_all add: s3 responseTimeout_def messageHandlers_offMessage remove1_append)
  have m: "errorMessage system (ResponseTimeout ''client_list'') = ''Timeout waiting for client_list response''"
    by simp
  show ?thesis
    using a(1-4) d st2 b b' st3 c m fresh by blast
qed

text \<open>
  C2. \<open>twoPendingService\<close> is connected and two \<open>getClients\<close> calls wait for their reply.
  A frame \<open>{type: "client_list", clients: {a: {}}}\<close> arrives. The one-shot handler of the
  first call runs, resolves the first promise and splices itself out of the array that
  \<open>forEach\<close> is walking; the handler of the second call moves to index 0, which \<open>forEach\<close>
  has passed, and is not called. The second call, though followed by the frame, is not
  resolved; its handler stays registered and its timeout armed, and when that fires the
  call is rejected with the timeout error.
\<close>

theorem second_pending_request_not_resolved:
  "isConnected twoPendingService \<and> readyStateOf twoPendingService 0 = OPEN
   \<and> messageHandlers twoPendingService ''client_list''
       = Some [OneShot 1 GetClients, OneShot 2 GetClients]
   \<and> replies twoPendingService = []
   \<and> replies (onmessage (Frame ''{type:client_list,clients:{a:{}}}''
                   (Some (JObj [(''type'', JStr ''client_list''), (''clients'', JObj [(''a'', JObj [])])])))
                 twoPendingService)
       = [(1, Inr (JObj [(''a'', JObj [])]))]
   \<and> messageHandlers (onmessage (Frame ''{type:client_list,clients:{a:{}}}''
                   (Some (JObj [(''type'', JStr ''client_list''), (''clients'', JObj [(''a'', JObj [])])])))
                 twoPendingService) ''client_list''
       = Some [OneShot 2 GetClients]
   \<and> timers (onmessage (Frame ''{type:client_list,clients:{a:{}}}''
                   (Some (JObj [(''type'', JStr ''client_list''), (''clients'', JObj [(''a'', JObj [])])])))
                 twoPendingService) (ResponseTimer 2 GetClients)
       = Some 5000
   \<and> replies (responseTimeout 2 GetClients (clearTimeout (ResponseTimer 2 GetClients)
                 (onmessage (Frame ''{type:client_list,clients:{a:{}}}''
                   (Some (JObj [(''type'', JStr ''client_list''), (''clients'', JObj [(''a'', JObj [])])])))
                 twoPendingService)))
       = [(1, Inr (JObj [(''a'', JObj [])])), (2, Inl (ResponseTimeout ''client_list''))]"
  by (simp add: twoPendingService_def connectedService_def service_defs)

subsection \<open>Dispatch of a frame\<close>

text \<open>
  C9. \<open>awaitingService\<close> has two handlers for \<open>client_list\<close>: the one-shot handler of
  \<open>getClients\<close> and, after it, a function of the caller. When a \<open>client_list\<close> frame
  arrives, the one-shot handler runs and splices itself out of the array that \<open>forEach\<close> is
  walking; the function of the caller moves to index 0, which \<open>forEach\<close> has passed, and is
  never called. And for the frame \<open>null\<close>, which \<open>JSON.parse\<close> decodes, \<open>handleMessage\<close>
  throws on \<open>data.type\<close>; the service reports a parse error and does not fire the \<open>message\<close>
  event.
\<close>

theorem self_removal_skips_next_handler:
  "messageHandlers awaitingService ''client_list'' = Some [OneShot 1 GetClients, Callback 7 Returns]
   \<and> invoked (onmessage (Frame ''{type:client_list}'' (Some (JObj [(''type'', JStr ''client_list'')])))
                awaitingService) = []
   \<and> replies (onmessage (Frame ''{type:client_list}'' (Some (JObj [(''type'', JStr ''client_list'')])))
                awaitingService) = [(1, Inr (JObj []))]
   \<and> messageHandlers (onmessage (Frame ''{type:client_list}'' (Some (JObj [(''type'', JStr ''client_list'')])))
                awaitingService) ''client_list'' = Some [Callback 7 Returns]
   \<and> emitted (onmessage (Frame ''null'' (Some JNull)) connectedService)
       = [(''connect'', ConnectInfo ''ws://host''), (''error'', ParseError ''null'')]"
  by (simp add: awaitingService_def connectedService_def service_defs)

subsection \<open>\<open>connect\<close> with a URL of another scheme\<close>

text \<open>
  C4, as stated, fails: \<open>connect\<close> calls \<open>disconnect\<close> before it looks at the URL. On a
  connected service \<open>connect("http://host")\<close> closes the open transport, clears the socket
  handle and the connected flag; on a service that waits to reconnect it cancels the
  reconnection timer.
\<close>

theorem invalid_url_tears_down:
  "socket connectedService = Some 0 \<and> isConnected connectedService
   \<and> readyStateOf connectedService 0 = OPEN
   \<and> socket (connect ''http://host'' noOptions False False connectedService) = None
   \<and> \<not> isConnected (connect ''http://host'' noOptions False False connectedService)
   \<and> readyStateOf (connect ''http://host'' noOptions False False connectedService) 0 = CLOSING
   \<and> timers lostService (ReconnectTimer 1) = Some 1000
   \<and> reconnectTimeout lostService = Some (ReconnectTimer 1)
   \<and> timers (connect ''http://host'' noOptions False False lostService) (ReconnectTimer 1) = None
   \<and> reconnectTimeout (connect ''http://host'' noOptions False False lostService) = None"
  by (simp add: connectedService_def lostService_def service_defs)

text \<open>
  C4, amended. For a URL that starts with neither \<open>ws://\<close> nor \<open>wss://\<close>, \<open>connect\<close> rejects
  its promise with the invalid-URL error, records that error and fires an \<open>error\<close> event
  with it; it constructs no transport, arms no timer, sends nothing, and leaves \<open>url\<close> and
  the attempt counter as they were. The teardown comes first: if there is a socket handle,
  the handle is cleared, the transport is closed when it was open or connecting, the
  service is marked not connected and the reconnection timer is cancelled; if there is
  none, the connected flag, the timers and the transports are left as they were.
\<close>

theorem invalid_url_rejected:
  assumes "\<not> validUrl serverUrl"
  shows "settled (connect serverUrl options viaReconnect constructorThrows s)
       = settled s @ [(nextId s, Rejected (InvalidUrl serverUrl))]
   \<and> emitted (connect serverUrl options viaReconnect constructorThrows s)
       = emitted s @ [(''error'', ErrorObject (InvalidUrl serverUrl))]
   \<and> connectionError (connect serverUrl options viaReconnect constructorThrows s)
       = Some (ErrorObject (InvalidUrl serverUrl))
   \<and> socket (connect serverUrl options viaReconnect constructorThrows s) = None
   \<and> (\<forall>k. readyStateOf (connect serverUrl options viaReconnect constructorThrows s) k = CONNECTING
          \<longrightarrow> readyStateOf s k = CONNECTING)
   \<and> (\<forall>t. timers (connect serverUrl options viaReconnect constructorThrows s) t \<noteq> None
          \<longrightarrow> timers s t \<noteq> None)
   \<and> sent (connect serverUrl options viaReconnect constructorThrows s) = sent s
   \<and> url (connect serverUrl options viaReconnect constructorThrows s) = url s
   \<and> connectionAttempts (connect serverUrl options viaReconnect constructorThrows s) = connectionAttempts s
   \<and> (\<forall>k. socket s = Some k \<longrightarrow>
          \<not> isConnected (connect serverUrl options viaReconnect constructorThrows s)
        \<and> reconnectTimeout (connect serverUrl options viaReconnect constructorThrows s) = None
        \<and> (\<forall>t. reconnectTimeout s = Some t
              \<longrightarrow> timers (connect serverUrl options viaReconnect constructorThrows s) t = None)
        \<and> readyStateOf (connect serverUrl options viaReconnect constructorThrows s) k
            = (if readyStateOf s k = OPEN \<or> readyStateOf s k = CONNECTING then CLOSING
               else readyStateOf s k))
   \<and> (socket s = None \<longrightarrow>
          isConnected (connect serverUrl options viaReconnect constructorThrows s) = isConnected s
        \<and> reconnectTimeout (connect serverUrl options viaReconnect constructorThrows s) = reconnectTimeout s
        \<and> timers (connect serverUrl options viaReconnect constructorThrows s) = timers s
        \<and> transports (connect serverUrl options viaReconnect constructorThrows s) = transports s)"
proof (cases "socket s")
  case None
  then show ?thesis using assms by (simp add: connect_invalid readyStateOf_def)
next
  case (Some k)
  then show ?thesis using assms
    by (simp add: connect_invalid readyStateOf_def emitted_disconnect split: option.splits)
qed

theorem invalid_url_rejected_witness:
  "\<not> validUrl ''http://host''
   \<and> socket connectedService = Some 0
   \<and> settled (connect ''http://host'' noOptions False False connectedService)
       = settled connectedService @ [(nextId connectedService, Rejected (InvalidUrl ''http://host''))]
   \<and> socket (connect ''http://host'' noOptions False False connectedService) = None
   \<and> \<not> isConnected (connect ''http://host'' noOptions False False connectedService)"
proof -
  have h: "\<not> validUrl ''http://host''"
    by (simp add: validUrl_def)
  have k: "socket connectedService = Some 0"
    by (simp add: connectedService_def onopen_def connect_valid validUrl_def
          createWebSocketService_def Let_def)
  show ?thesis
    using h k invalid_url_rejected [OF h, of noOptions False False connectedService] by simp
qed

subsection \<open>The promise of \<open>connect\<close>\<close>

lemma sameLifecycle_refl [simp]: "sameLifecycle s s"
  by (simp add: sameLifecycle_def)

lemma sameLifecycle_trans: "sameLifecycle s s1 \<Longrightarrow> sameLifecycle s1 s2 \<Longrightarrow> sameLifecycle s s2"
  by (simp add: sameLifecycle_def)

lemma lifecycleInvI:
  assumes "\<And>k. readyState (transports s k) = CONNECTING \<Longrightarrow> socket s = Some k"
    and "\<And>k. readyState (transports s k) = CONNECTING \<Longrightarrow> k \<notin> fst ` set (settled s)"
    and "\<And>k. timers s (ConnectionTimer k) \<noteq> None \<Longrightarrow> k \<notin> fst ` set (settled s)"
    and "\<And>k. nextId s \<le> k \<Longrightarrow> readyState (transports s k) = CLOSED"
    and "\<And>k. nextId s \<le> k \<Longrightarrow> timers s (ConnectionTimer k) = None"
    and "\<And>k. nextId s \<le> k \<Longrightarrow> k \<notin> fst ` set (settled s)"
    and "distinct (map fst (settled s))"
    and "isConnected s \<Longrightarrow> socket s \<noteq> None"
    and "\<And>k. isConnected s \<Longrightarrow> readyState (transports s k) \<noteq> CONNECTING"
  shows "lifecycleInv s"
  unfolding lifecycleInv_def readyStateOf_def
  by (intro conjI allI impI) (simp_all add: assms)

lemma lifecycleInvD:
  assumes "lifecycleInv s"
  shows "readyState (transports s k) = CONNECTING \<Longrightarrow> socket s = Some k"
    and "readyState (transports s k) = CONNECTING \<Longrightarrow> k \<notin> fst ` set (settled s)"
    and "timers s (ConnectionTimer k) \<noteq> None \<Longrightarrow> k \<notin> fst ` set (settled s)"
    and "nextId s \<le> k \<Longrightarrow> readyState (transports s k) = CLOSED"
    and "nextId s \<le> k \<Longrightarrow> timers s (ConnectionTimer k) = None"
    and "nextId s \<le> k \<Longrightarrow> k \<notin> fst ` set (settled s)"
    and "distinct (map fst (settled s))"
    and "isConnected s \<Longrightarrow> socket s \<noteq> None"
    and "isConnected s \<Longrightarrow> readyState (transports s k) \<noteq> CONNECTING"
  using assms unfolding lifecycleInv_def readyStateOf_def by simp_all

lemma sameLifecycle_inv:
  assumes inv: "lifecycleInv s" and same: "sameLifecycle s s1"
  shows "lifecycleInv s1"
proof -
  note d = lifecycleInvD [OF inv]
  have e: "socket s1 = socket s" "isConnected s1 \<Longrightarrow> isConnected s" "transports s1 = transports s"
    "settled s1 = settled s"
    "timers s1 (ConnectionTimer k) \<noteq> None \<Longrightarrow> timers s (ConnectionTimer k) \<noteq> None"
    "nextId s \<le> nextId s1" for k
    using same by (simp_all add: sameLifecycle_def)
  show ?thesis
  proof (rule lifecycleInvI)
    fix k assume "nextId s1 \<le> k"
    then have k: "nextId s \<le> k"
      using e(6) by simp
    then show "readyState (transports s1 k) = CLOSED" "k \<notin> fst ` set (settled s1)"
      using d(4,6) by (simp_all add: e)
    show "timers s1 (ConnectionTimer k) = None"
      using d(5) [OF k] e(5) [of k] by blast
  next
    fix k assume "timers s1 (ConnectionTimer k) \<noteq> None"
    then show "k \<notin> fst ` set (settled s1)"
      using d(3) e(5) by (simp add: e(4))
  qed (use d e in simp_all)
qed

lemma inv_init: "lifecycleInv createWebSocketService"
  by (simp add: lifecycleInv_def createWebSocketService_def readyStateOf_def)

lemma sameLifecycle_callHandler: "sameLifecycle s (callHandler messageType h data s)"
  by (cases "(messageType, h, data, s)" rule: callHandler.cases) (simp_all add: sameLifecycle_def)

lemma sameLifecycle_forEachHandler: "sameLifecycle s (forEachHandler messageType data n k s)"
proof (induction n arbitrary: k s)
  case 0
  show ?case by simp
next
  case (Suc n)
  let ?s1 = "case messageHandlers s messageType of None \<Rightarrow> s
          | Some hs \<Rightarrow> if k < length hs then callHandler messageType (hs ! k) data s else s"
  have first: "sameLifecycle s ?s1"
    by (simp add: sameLifecycle_callHandler split: option.splits)
  have rest: "sameLifecycle ?s1 (forEachHandler messageType data n (Suc k) ?s1)"
    by (rule Suc.IH)
  show ?case
    using sameLifecycle_trans [OF first rest] by simp
qed

lemma sameLifecycle_onmessage: "sameLifecycle s (onmessage f s)"
proof -
  have "handleMessage data s = Some s1 \<Longrightarrow> sameLifecycle s s1" for data s1
    by (auto simp add: handleMessage_def sameLifecycle_forEachHandler
          split: if_splits option.splits json.splits)
  then show ?thesis
    by (auto simp add: onmessage_def sameLifecycle_def split: option.splits)
qed

lemma sameLifecycle_send: "sameLifecycle s (snd (send message sendThrows s))"
  by (simp add: send_def sameLifecycle_def split: option.splits)

lemma sameLifecycle_awaitReply: "sameLifecycle s (awaitReply q options message sendThrows s)"
proof -
  let ?s2 = "setTimeout (ResponseTimer (nextId s) q) (timeoutOr options 5000)
               (onMessage (replyType q) (OneShot (nextId s) q) (s\<lparr>nextId := Suc (nextId s)\<rparr>))"
  have a: "sameLifecycle s ?s2"
    by (simp add: sameLifecycle_def)
  have b: "sameLifecycle ?s2 (snd (send message sendThrows ?s2))"
    by (rule sameLifecycle_send)
  have "sameLifecycle (snd (send message sendThrows ?s2)) (awaitReply q options message sendThrows s)"
    by (simp add: awaitReply_def Let_def sameLifecycle_def split: prod.splits option.splits)
  with a b show ?thesis
    using sameLifecycle_trans by blast
qed

lemma sameLifecycle_requests:
  "sameLifecycle s (getClients options sendThrows s)"
  "sameLifecycle s (getPresets options sendThrows s)"
  "sameLifecycle s (updateDisplay clientIds displayData options sendThrows s)"
  "sameLifecycle s (savePreset name options sendThrows s)"
  "sameLifecycle s (loadPreset name options sendThrows s)"
  by (simp_all add: getClients_def getPresets_def updateDisplay_def savePreset_def loadPreset_def
        sameLifecycle_awaitReply rejectedPromise_def) (simp_all add: sameLifecycle_def)

lemma sameLifecycle_misc:
  "sameLifecycle s (onMessage messageType h s)"
  "sameLifecycle s (offMessage messageType h s)"
  "sameLifecycle s (case addEventListener e n s of Inl thrown \<Rightarrow> s | Inr s1 \<Rightarrow> s1)"
  "sameLifecycle s (case removeEventListener e n s of Inl thrown \<Rightarrow> s | Inr s1 \<Rightarrow> s1)"
  "sameLifecycle s (onerror c s)"
  "sameLifecycle s (responseTimeout r q (clearTimeout (ResponseTimer r q) s))"
  by (simp_all add: sameLifecycle_def addEventListener_def removeEventListener_def onerror_def
        responseTimeout_def Let_def)

lemma inv_disconnect: "lifecycleInv s \<Longrightarrow> lifecycleInv (disconnect False s)"
  by (auto simp add: lifecycleInv_def readyStateOf_def split: option.splits)

lemma inv_teardown:
  fixes s :: service and v :: bool
  assumes "lifecycleInv s"
  defines "s1 \<equiv> (if socket s \<noteq> None
                  then disconnect False (s\<lparr>nextId := Suc (nextId s), retried := (retried s)(nextId s := v)\<rparr>)
                  else s\<lparr>nextId := Suc (nextId s), retried := (retried s)(nextId s := v)\<rparr>)"
  shows "socket s1 = None" "\<not> isConnected s1" "\<forall>k. readyStateOf s1 k \<noteq> CONNECTING"
    "settled s1 = settled s" "nextId s1 = Suc (nextId s)"
    "\<forall>k. timers s1 (ConnectionTimer k) \<noteq> None \<longrightarrow> timers s (ConnectionTimer k) \<noteq> None"
    "\<forall>k. readyStateOf s k = CLOSED \<longrightarrow> readyStateOf s1 k = CLOSED"
    "retried s1 (nextId s) = v"
  using assms(1) unfolding s1_def
  by (auto simp add: lifecycleInv_def readyStateOf_def split: option.splits)

lemma inv_connect:
  assumes "lifecycleInv s"
  shows "lifecycleInv (connect serverUrl options v constructorThrows s)"
proof -
  define s1 where "s1 = (if socket s \<noteq> None
                  then disconnect False (s\<lparr>nextId := Suc (nextId s), retried := (retried s)(nextId s := v)\<rparr>)
                  else s\<lparr>nextId := Suc (nextId s), retried := (retried s)(nextId s := v)\<rparr>)"
  note t = inv_teardown [OF assms, of v, folded s1_def]
  have old: "\<forall>k. nextId s \<le> k \<longrightarrow> readyStateOf s k = CLOSED \<and> timers s (ConnectionTimer k) = None
             \<and> k \<notin> fst ` set (settled s)"
    "distinct (map fst (settled s))"
    "\<forall>k. timers s (ConnectionTimer k) \<noteq> None \<longrightarrow> k \<notin> fst ` set (settled s)"
    using assms by (simp_all add: lifecycleInv_def)
  show ?thesis
  proof (cases "validUrl serverUrl")
    case False
    then have "connect serverUrl options v constructorThrows s =
        rejectConnect (nextId s) (InvalidUrl serverUrl)
          (triggerEvent ''error'' (ErrorObject (InvalidUrl serverUrl))
            (s1\<lparr>connectionError := Some (ErrorObject (InvalidUrl serverUrl))\<rparr>))"
      by (simp add: connect_invalid s1_def)
    then show ?thesis
      using t old by (auto simp add: lifecycleInv_def readyStateOf_def)
  next
    case True
    show ?thesis
    proof (cases constructorThrows)
      case True
      with \<open>validUrl serverUrl\<close> have "connect serverUrl options v constructorThrows s =
          rejectConnect (nextId s) ReferenceError
            (s1\<lparr>connectionError := None, url := serverUrl,
                connectionAttempts := Suc (connectionAttempts s)\<rparr>
               \<lparr>connectionError := Some (ErrorObject ConstructorThrew)\<rparr>)"
        by (simp add: connect_valid s1_def Let_def)
      then show ?thesis
        using t old by (auto simp add: lifecycleInv_def readyStateOf_def)
    next
      case False
      with \<open>validUrl serverUrl\<close> have "connect serverUrl options v constructorThrows s =
          setTimeout (ConnectionTimer (nextId s)) (timeoutOr options 10000)
            (s1\<lparr>connectionError := None, url := serverUrl,
                connectionAttempts := Suc (connectionAttempts s)\<rparr>
               \<lparr>socket := Some (nextId s),
                transports := (transports s1)(nextId s := \<lparr>readyState = CONNECTING, opts = options\<rparr>)\<rparr>)"
        by (simp add: connect_valid s1_def Let_def)
      then show ?thesis
        using t old by (auto simp add: lifecycleInv_def readyStateOf_def)
    qed
  qed
qed

lemma inv_onopen:
  assumes inv: "lifecycleInv s" and c: "readyStateOf s k = CONNECTING"
  shows "lifecycleInv (onopen k (setReadyState k OPEN s))"
proof -
  let ?s1 = "onopen k (setReadyState k OPEN s)"
  have c': "readyState (transports s k) = CONNECTING"
    using c by (simp add: readyStateOf_def)
  have f: "socket ?s1 = socket s" "isConnected ?s1"
    "readyState (transports ?s1 j) = (if j = k then OPEN else readyState (transports s j))"
    "timers ?s1 = (timers s)(ConnectionTimer k := None)"
    "settled ?s1 = settled s @ [(k, Resolved)]" "nextId ?s1 = nextId s" for j
    by (simp_all add: onopen_def)
  note d = lifecycleInvD [OF inv]
  have cur: "socket s = Some k" "k \<notin> fst ` set (settled s)"
    using d(1,2) c' by blast+
  show ?thesis
  proof (rule lifecycleInvI)
    fix j assume "readyState (transports ?s1 j) = CONNECTING"
    then have j: "j \<noteq> k" "readyState (transports s j) = CONNECTING"
      by (simp_all add: f split: if_splits)
    then show "socket ?s1 = Some j" "j \<notin> fst ` set (settled ?s1)"
      using d(1,2) by (simp_all add: f)
  next
    fix j assume "timers ?s1 (ConnectionTimer j) \<noteq> None"
    then have "j \<noteq> k" "timers s (ConnectionTimer j) \<noteq> None"
      by (simp_all add: f split: if_splits)
    then show "j \<notin> fst ` set (settled ?s1)"
      using d(3) by (simp add: f)
  next
    fix j assume j: "nextId ?s1 \<le> j"
    then have "j \<noteq> k"
      using d(4) [of j] c' by (auto simp add: f)
    then show "readyState (transports ?s1 j) = CLOSED" "timers ?s1 (ConnectionTimer j) = None"
      "j \<notin> fst ` set (settled ?s1)"
      using j d(4,5,6) by (simp_all add: f)
  next
    show "distinct (map fst (settled ?s1))"
      using d(7) cur(2) by (simp add: f)
  next
    show "socket ?s1 \<noteq> None"
      using cur(1) by (simp add: f)
  next
    fix j show "readyState (transports ?s1 j) \<noteq> CONNECTING"
      using d(1) [of j] cur(1) by (auto simp add: f)
  qed
qed

lemma sameLifecycle_scheduleReconnect: "sameLifecycle s (scheduleReconnect s)"
  by (simp add: sameLifecycle_def split: option.splits)

lemma inv_closed: "lifecycleInv s \<Longrightarrow> lifecycleInv (setReadyState k CLOSED s)"
  by (rule lifecycleInvI) (simp_all add: lifecycleInvD split: if_splits)

lemma inv_onclose:
  assumes "lifecycleInv s"
  shows "lifecycleInv (onclose k code reason wasClean (setReadyState k CLOSED s))"
proof -
  let ?s0 = "setReadyState k CLOSED s"
  let ?s1 = "triggerEvent ''disconnect'' (DisconnectInfo code reason wasClean)
               (clearTimeout (ConnectionTimer k) (?s0\<lparr>isConnected := False\<rparr>))"
  have "sameLifecycle ?s0 ?s1"
    by (simp add: sameLifecycle_def)
  moreover have "sameLifecycle ?s1 (scheduleReconnect ?s1)"
    "sameLifecycle ?s1 (triggerEvent ''error'' MaxReconnectAttempts ?s1)"
    by (rule sameLifecycle_scheduleReconnect) (simp add: sameLifecycle_def)
  ultimately have "sameLifecycle ?s0 (onclose k code reason wasClean ?s0)"
    by (auto simp add: onclose_def Let_def intro: sameLifecycle_trans)
  then show ?thesis
    using inv_closed [OF assms] sameLifecycle_inv by blast
qed

lemma inv_connectionTimeout:
  assumes inv: "lifecycleInv s" and armed: "timers s (ConnectionTimer c) \<noteq> None"
  shows "lifecycleInv (connectionTimeout c (clearTimeout (ConnectionTimer c) s))"
proof (cases "isConnected s")
  case True
  then have "connectionTimeout c (clearTimeout (ConnectionTimer c) s) = clearTimeout (ConnectionTimer c) s"
    by (simp add: connectionTimeout_def)
  moreover have "sameLifecycle s (clearTimeout (ConnectionTimer c) s)"
    by (simp add: sameLifecycle_def)
  ultimately show ?thesis
    using inv sameLifecycle_inv by simp
next
  case False
  let ?s1 = "connectionTimeout c (clearTimeout (ConnectionTimer c) s)"
  note d = lifecycleInvD [OF inv]
  have f: "socket ?s1 = (case socket s of None \<Rightarrow> None
              | Some k \<Rightarrow> if readyState (transports s k) = CONNECTING then None else Some k)"
    "\<not> isConnected ?s1"
    "readyState (transports ?s1 j) =
       (if socket s = Some j \<and> readyState (transports s j) = CONNECTING then CLOSING
        else readyState (transports s j))"
    "timers ?s1 = (timers s)(ConnectionTimer c := None)"
    "settled ?s1 = settled s @ [(c, Rejected (ConnectionTimeout (url s)))]"
    "nextId ?s1 = nextId s" for j
    using False
    by (simp_all add: connectionTimeout_def Let_def readyStateOf_def split: option.splits)
  have c1: "c \<notin> fst ` set (settled s)"
    using d(3) armed by blast
  have c2: "c < nextId s"
  proof (rule ccontr)
    assume "\<not> c < nextId s"
    then have "nextId s \<le> c" by simp
    from d(5) [OF this] armed show False by simp
  qed
  note c = c1 c2
  show ?thesis
  proof (rule lifecycleInvI)
    fix j assume "readyState (transports ?s1 j) = CONNECTING"
    then have "readyState (transports s j) = CONNECTING" "socket s \<noteq> Some j"
      by (simp_all add: f split: if_splits)
    then show "socket ?s1 = Some j" "j \<notin> fst ` set (settled ?s1)"
      using d(1) by simp_all
  next
    fix j assume "timers ?s1 (ConnectionTimer j) \<noteq> None"
    then have "j \<noteq> c" "timers s (ConnectionTimer j) \<noteq> None"
      by (simp_all add: f split: if_splits)
    then show "j \<notin> fst ` set (settled ?s1)"
      using d(3) by (simp add: f)
  next
    fix j assume j: "nextId ?s1 \<le> j"
    then have "j \<noteq> c"
      using c(2) by (simp add: f)
    then show "readyState (transports ?s1 j) = CLOSED" "timers ?s1 (ConnectionTimer j) = None"
      "j \<notin> fst ` set (settled ?s1)"
      using j d(4,5,6) by (simp_all add: f)
  next
    show "distinct (map fst (settled ?s1))"
      using d(7) c(1) by (simp add: f)
  next
    assume "isConnected ?s1"
    then show "socket ?s1 \<noteq> None"
      by (simp add: f)
  next
    fix j assume "isConnected ?s1"
    then show "readyState (transports ?s1 j) \<noteq> CONNECTING"
      by (simp add: f)
  qed
qed

lemma inv_reconnectNow: "lifecycleInv s \<Longrightarrow> lifecycleInv (reconnectNow constructorThrows s)"
  unfolding reconnectNow_def
  by (rule inv_connect, rule sameLifecycle_inv, assumption) (simp add: sameLifecycle_def)

lemma inv_clearTimeout: "lifecycleInv s \<Longrightarrow> lifecycleInv (clearTimeout t s)"
  by (rule sameLifecycle_inv, assumption) (simp add: sameLifecycle_def)

lemma inv_step:
  assumes "lifecycleInv s" "step e s = Some s1"
  shows "lifecycleInv s1"
proof (cases e)
  case (TimerFires t constructorThrows)
  with assms(2) have armed: "timers s t \<noteq> None"
    and s1: "s1 = timerCallback t constructorThrows (clearTimeout t s)"
    by (simp_all split: if_splits)
  show ?thesis
  proof (cases t)
    case (ConnectionTimer c)
    then show ?thesis using assms(1) armed s1 by (simp add: inv_connectionTimeout)
  next
    case (ReconnectTimer n)
    then show ?thesis using assms(1) s1 by (simp add: inv_reconnectNow inv_clearTimeout)
  next
    case (ResponseTimer r q)
    then show ?thesis using assms(1) s1 sameLifecycle_inv sameLifecycle_misc(6) by simp
  qed
next
  case (TransportOpens k)
  then show ?thesis using assms by (auto simp add: inv_onopen split: if_splits)
next
  case (TransportCloses k code reason wasClean)
  then show ?thesis using assms by (auto simp add: inv_onclose split: if_splits)
next
  case (TransportErrors k)
  then show ?thesis using assms sameLifecycle_inv sameLifecycle_misc(5) by (auto split: if_splits)
next
  case (TransportReceives k f)
  then show ?thesis using assms sameLifecycle_inv sameLifecycle_onmessage by (auto split: if_splits)
qed (use assms in \<open>auto simp add: inv_connect inv_disconnect
       intro: sameLifecycle_inv sameLifecycle_send sameLifecycle_requests sameLifecycle_misc\<close>)

lemma inv_run: "lifecycleInv s \<Longrightarrow> run evs s = Some s1 \<Longrightarrow> lifecycleInv s1"
  by (induction evs arbitrary: s) (auto split: option.splits dest: inv_step)

lemma run_append:
  "run (xs @ ys) s = (case run xs s of None \<Rightarrow> None | Some s1 \<Rightarrow> run ys s1)"
  by (induction xs arbitrary: s) (simp_all split: option.splits)

lemma settled_connect:
  "settled (connect serverUrl options v constructorThrows s) =
     settled s @ (if \<not> validUrl serverUrl then [(nextId s, Rejected (InvalidUrl serverUrl))]
                  else if constructorThrows then [(nextId s, Rejected ReferenceError)] else [])"
  by (cases "validUrl serverUrl"; cases "socket s"; simp add: connect_invalid connect_valid Let_def)

lemma settled_onclose [simp]: "settled (onclose k code reason wasClean s) = settled s"
  by (simp add: onclose_def Let_def)

lemma settled_connectionTimeout:
  "settled (connectionTimeout c s) =
     settled s @ (if isConnected s then [] else [(c, Rejected (ConnectionTimeout (url s)))])"
  by (simp add: connectionTimeout_def Let_def split: option.splits)

lemma sameLifecycle_step:
  assumes "step e s = Some s1"
  shows "sameLifecycle s s1 \<or> (\<exists>u options b. e = CallConnect u options b) \<or> e = CallDisconnect
       \<or> (\<exists>k. e = TransportOpens k) \<or> (\<exists>k code reason wasClean. e = TransportCloses k code reason wasClean)
       \<or> (\<exists>c b. e = TimerFires (ConnectionTimer c) b) \<or> (\<exists>n b. e = TimerFires (ReconnectTimer n) b)"
proof (cases e)
  case (TimerFires t constructorThrows)
  then show ?thesis
    using assms sameLifecycle_misc(6) by (cases t) (auto split: if_splits)
qed (use assms in \<open>auto simp add: sameLifecycle_send sameLifecycle_requests sameLifecycle_misc
       sameLifecycle_onmessage split: if_splits\<close>)

lemma settled_step:
  assumes "step e s = Some s1"
  shows "(\<exists>k. e = TransportOpens k \<and> settled s1 = settled s @ [(k, Resolved)])
       \<or> (\<exists>rej. settled s1 = settled s @ rej \<and> (\<forall>x \<in> set rej. snd x \<noteq> Resolved)
              \<and> (\<forall>k. e \<noteq> TransportOpens k))"
proof -
  consider (quiet) "sameLifecycle s s1" "\<forall>k. e \<noteq> TransportOpens k"
    | (connect) u options b where "e = CallConnect u options b"
    | (disconnect) "e = CallDisconnect"
    | (opens) k where "e = TransportOpens k"
    | (closes) k code reason wasClean where "e = TransportCloses k code reason wasClean"
    | (timeout) c b where "e = TimerFires (ConnectionTimer c) b"
    | (retry) n b where "e = TimerFires (ReconnectTimer n) b"
    using sameLifecycle_step [OF assms] by blast
  then show ?thesis
  proof cases
    case quiet
    then show ?thesis by (simp add: sameLifecycle_def)
  next
    case connect
    then show ?thesis using assms by (auto simp add: settled_connect)
  next
    case disconnect
    then show ?thesis using assms by auto
  next
    case opens
    then show ?thesis using assms by (auto simp add: onopen_def split: if_splits)
  next
    case closes
    then show ?thesis using assms by (auto split: if_splits)
  next
    case timeout
    then show ?thesis using assms by (auto simp add: settled_connectionTimeout split: if_splits)
  next
    case retry
    then show ?thesis using assms by (auto simp add: reconnectNow_def settled_connect split: if_splits)
  qed
qed

lemma resolved_iff_opened:
  "run evs s = Some s1 \<Longrightarrow>
     (c, Resolved) \<in> set (settled s1) \<longleftrightarrow> (c, Resolved) \<in> set (settled s) \<or> TransportOpens c \<in> set evs"
proof (induction evs arbitrary: s)
  case Nil
  then show ?case by simp
next
  case (Cons e evs)
  then obtain s0 where e: "step e s = Some s0" and rest: "run evs s0 = Some s1"
    by (auto split: option.splits)
  have "(c, Resolved) \<in> set (settled s0) \<longleftrightarrow> (c, Resolved) \<in> set (settled s) \<or> e = TransportOpens c"
    using settled_step [OF e] by force
  then show ?case
    using Cons.IH [OF rest] by auto
qed

lemma settled_grows: "run evs s = Some s1 \<Longrightarrow> set (settled s) \<subseteq> set (settled s1)"
proof (induction evs arbitrary: s)
  case Nil
  then show ?case by simp
next
  case (Cons e evs)
  then obtain s0 where e: "step e s = Some s0" and rest: "run evs s0 = Some s1"
    by (auto split: option.splits)
  have "set (settled s) \<subseteq> set (settled s0)"
    using settled_step [OF e] by auto
  then show ?case
    using Cons.IH [OF rest] by auto
qed

lemma nextId_connect [simp]:
  "nextId (connect serverUrl options v constructorThrows s) = Suc (nextId s)"
  by (cases "validUrl serverUrl") (simp_all add: connect_invalid connect_valid Let_def)

lemma readyState_connect:
  "readyState (transports (connect serverUrl options v constructorThrows s) j) =
     (if validUrl serverUrl \<and> \<not> constructorThrows \<and> j = nextId s then CONNECTING
      else if socket s = Some j
              \<and> (readyState (transports s j) = OPEN \<or> readyState (transports s j) = CONNECTING)
      then CLOSING else readyState (transports s j))"
proof (cases "validUrl serverUrl")
  case False
  then show ?thesis by (auto simp add: connect_invalid)
next
  case True
  then show ?thesis by (cases "socket s") (auto simp add: connect_valid Let_def)
qed

lemmas connect_transports = readyState_connect nextId_connect

lemma onopen_transports [simp]:
  "transports (onopen k s) = transports s" "nextId (onopen k s) = nextId s"
  by (simp_all add: onopen_def)

lemma onclose_transports [simp]:
  "transports (onclose k code reason wasClean s) = transports s"
  "nextId s \<le> nextId (onclose k code reason wasClean s)"
  by (simp_all add: onclose_def Let_def)

lemma connectionTimeout_transports:
  "readyState (transports (connectionTimeout c s) j) =
     (if \<not> isConnected s \<and> socket s = Some j \<and> readyState (transports s j) = CONNECTING
      then CLOSING else readyState (transports s j))"
  "nextId (connectionTimeout c s) = nextId s"
  by (auto simp add: connectionTimeout_def Let_def readyStateOf_def split: option.splits)

lemma never_connecting_again:
  assumes "step e s = Some s1" "c < nextId s" "readyState (transports s c) \<noteq> CONNECTING"
  shows "readyState (transports s1 c) \<noteq> CONNECTING \<and> c < nextId s1"
proof -
  consider (quiet) "sameLifecycle s s1"
    | (connect) u options b where "e = CallConnect u options b"
    | (disconnect) "e = CallDisconnect"
    | (opens) k where "e = TransportOpens k"
    | (closes) k code reason wasClean where "e = TransportCloses k code reason wasClean"
    | (timeout) k b where "e = TimerFires (ConnectionTimer k) b"
    | (retry) n b where "e = TimerFires (ReconnectTimer n) b"
    using sameLifecycle_step [OF assms(1)] by blast
  then show ?thesis
  proof cases
    case quiet
    then show ?thesis using assms(2,3) by (simp add: sameLifecycle_def)
  next
    case connect
    then show ?thesis using assms by (auto simp add: connect_transports split: if_splits)
  next
    case disconnect
    then show ?thesis using assms by (auto split: if_splits)
  next
    case opens
    then show ?thesis using assms by (auto split: if_splits)
  next
    case closes
    then show ?thesis
      using assms onclose_transports(2) [of "setReadyState k CLOSED s" k code reason wasClean]
      by (auto split: if_splits)
  next
    case timeout
    then show ?thesis using assms by (auto simp add: connectionTimeout_transports split: if_splits)
  next
    case retry
    then show ?thesis
      using assms by (auto simp add: reconnectNow_def connect_transports split: if_splits)
  qed
qed

lemma never_opens_again:
  "c < nextId s \<Longrightarrow> readyState (transports s c) \<noteq> CONNECTING \<Longrightarrow> run evs s = Some s1 \<Longrightarrow>
     TransportOpens c \<notin> set evs"
proof (induction evs arbitrary: s)
  case Nil
  show ?case by simp
next
  case (Cons e evs)
  then obtain s0 where e: "step e s = Some s0" and rest: "run evs s0 = Some s1"
    by (auto split: option.splits)
  have "e \<noteq> TransportOpens c"
    using e Cons.prems(2) by (auto simp add: readyStateOf_def)
  moreover have "TransportOpens c \<notin> set evs"
    using never_connecting_again [OF e Cons.prems(1,2)] Cons.IH rest by blast
  ultimately show ?case by simp
qed

lemma timeout_closes:
  assumes inv: "lifecycleInv s" and e: "step (TimerFires (ConnectionTimer c) b) s = Some s1"
  shows "readyState (transports s1 c) \<noteq> CONNECTING \<and> c < nextId s1"
proof -
  note d = lifecycleInvD [OF inv]
  have armed: "timers s (ConnectionTimer c) \<noteq> None"
    and s1: "s1 = connectionTimeout c (clearTimeout (ConnectionTimer c) s)"
    using e by (simp_all split: if_splits)
  have "c < nextId s"
  proof (rule ccontr)
    assume "\<not> c < nextId s"
    then have "nextId s \<le> c" by simp
    from d(5) [OF this] armed show False by simp
  qed
  moreover have "readyState (transports s1 c) \<noteq> CONNECTING"
    using d(1) [of c] d(9) [of c] by (auto simp add: s1 connectionTimeout_transports)
  ultimately show ?thesis
    by (simp add: s1 connectionTimeout_transports)
qed

lemma distinct_keys_once:
  "distinct (map fst xs) \<Longrightarrow> length (filter (\<lambda>p. fst p = c) xs) \<le> 1"
proof (induction xs)
  case Nil
  show ?case by simp
next
  case (Cons x xs)
  show ?case
  proof (cases "fst x = c")
    case True
    with Cons.prems have "c \<notin> fst ` set xs"
      by simp
    then have "\<forall>p \<in> set xs. fst p \<noteq> c"
      by (auto simp add: image_iff)
    then have "filter (\<lambda>p. fst p = c) xs = []"
      by (simp add: filter_empty_conv)
    with True show ?thesis by simp
  next
    case False
    with Cons show ?thesis by simp
  qed
qed

text \<open>
  C3. In every run of a new service, for the \<open>connect\<close> call number \<open>c\<close>: \<open>resolve\<close> and
  \<open>reject\<close> of its promise are called at most once altogether; the promise is resolved
  exactly if the \<open>open\<close> event of its transport occurred in the run; after the connection
  timeout of the call has fired, that \<open>open\<close> event does not occur any more; once the
  promise is rejected, no continuation of the run resolves it or opens its transport.
  The \<open>open\<close> event resolves the promise, sets the attempt counter to 0 and the delay to
  1000 ms and clears the connection timeout. A \<open>connect\<close> call with a valid URL leaves its
  promise unsettled and arms the connection timeout, with 10000 ms when the options give
  none.
\<close>

theorem connect_settles_once:
  assumes "run evs createWebSocketService = Some s"
  shows "length (filter (\<lambda>p. fst p = c) (settled s)) \<le> 1
   \<and> ((c, Resolved) \<in> set (settled s) \<longleftrightarrow> TransportOpens c \<in> set evs)
   \<and> (\<forall>before b after. evs = before @ TimerFires (ConnectionTimer c) b # after
          \<longrightarrow> TransportOpens c \<notin> set after)
   \<and> (\<forall>e later s1. (c, Rejected e) \<in> set (settled s) \<and> run later s = Some s1
          \<longrightarrow> (c, Resolved) \<notin> set (settled s1) \<and> TransportOpens c \<notin> set later)
   \<and> (\<forall>s1. step (TransportOpens c) s = Some s1
          \<longrightarrow> settled s1 = settled s @ [(c, Resolved)] \<and> isConnected s1
            \<and> connectionAttempts s1 = 0 \<and> reconnectDelay s1 = 1000
            \<and> timers s1 (ConnectionTimer c) = None)
   \<and> (\<forall>serverUrl options. validUrl serverUrl
          \<longrightarrow> settled (connect serverUrl options False False s) = settled s
            \<and> readyStateOf (connect serverUrl options False False s) (nextId s) = CONNECTING
            \<and> timers (connect serverUrl options False False s) (ConnectionTimer (nextId s))
                = Some (timeoutOr options 10000))
   \<and> timeoutOr noOptions 10000 = 10000"
proof -
  have inv: "lifecycleInv s"
    using inv_run [OF inv_init assms] .
  have a: "length (filter (\<lambda>p. fst p = c) (settled s)) \<le> 1"
    using lifecycleInvD(7) [OF inv] by (rule distinct_keys_once)
  have b: "(c, Resolved) \<in> set (settled s) \<longleftrightarrow> TransportOpens c \<in> set evs"
    using resolved_iff_opened [OF assms] by (simp add: createWebSocketService_def)
  have c: "\<forall>before b after. evs = before @ TimerFires (ConnectionTimer c) b # after
          \<longrightarrow> TransportOpens c \<notin> set after"
  proof (intro allI impI)
    fix before b after
    assume "evs = before @ TimerFires (ConnectionTimer c) b # after"
    with assms obtain s0 s1 where s0: "run before createWebSocketService = Some s0"
      and e: "step (TimerFires (ConnectionTimer c) b) s0 = Some s1" and rest: "run after s1 = Some s"
      by (auto simp add: run_append split: option.splits)
    have "lifecycleInv s0"
      using inv_run [OF inv_init s0] .
    from timeout_closes [OF this e] have "c < nextId s1" "readyState (transports s1 c) \<noteq> CONNECTING"
      by simp_all
    then show "TransportOpens c \<notin> set after"
      using rest by (rule never_opens_again)
  qed
  have d: "\<forall>e later s1. (c, Rejected e) \<in> set (settled s) \<and> run later s = Some s1
          \<longrightarrow> (c, Resolved) \<notin> set (settled s1) \<and> TransportOpens c \<notin> set later"
  proof (intro allI impI, elim conjE)
    fix e later s1
    assume rejected: "(c, Rejected e) \<in> set (settled s)" and later: "run later s = Some s1"
    have dist: "distinct (map fst (settled s1))"
      using lifecycleInvD(7) [OF inv_run [OF inv later]] .
    have in1: "(c, Rejected e) \<in> set (settled s1)"
      using settled_grows [OF later] rejected by (rule subsetD)
    have no: "(c, Resolved) \<notin> set (settled s1)"
    proof
      assume "(c, Resolved) \<in> set (settled s1)"
      from eq_key_imp_eq_value [OF dist in1 this] show False by simp
    qed
    have "(c, Resolved) \<notin> set (settled s)"
    proof
      assume "(c, Resolved) \<in> set (settled s)"
      with settled_grows [OF later] have "(c, Resolved) \<in> set (settled s1)"
        by (rule subsetD)
      with no show False by simp
    qed
    with no resolved_iff_opened [OF later, of c]
    show "(c, Resolved) \<notin> set (settled s1) \<and> TransportOpens c \<notin> set later"
      by simp
  qed
  have e: "\<forall>s1. step (TransportOpens c) s = Some s1
          \<longrightarrow> settled s1 = settled s @ [(c, Resolved)] \<and> isConnected s1
            \<and> connectionAttempts s1 = 0 \<and> reconnectDelay s1 = 1000
            \<and> timers s1 (ConnectionTimer c) = None"
    by (simp add: onopen_def split: if_splits)
  have f: "\<forall>serverUrl options. validUrl serverUrl
          \<longrightarrow> settled (connect serverUrl options False False s) = settled s
            \<and> readyStateOf (connect serverUrl options False False s) (nextId s) = CONNECTING
            \<and> timers (connect serverUrl options False False s) (ConnectionTimer (nextId s))
                = Some (timeoutOr options 10000)"
    by (simp add: settled_connect readyState_connect readyStateOf_def) (simp add: connect_valid Let_def)
  have g: "timeoutOr noOptions 10000 = 10000"
    by (simp add: timeoutOr_def noOptions_def)
  show ?thesis
    using a b c d e f g by (intro conjI)
qed

theorem connect_settles_once_witness:
  "run [CallConnect ''ws://host'' noOptions False, TransportOpens 0] createWebSocketService
     = Some connectedService
   \<and> settled connectedService = [(0, Resolved)]
   \<and> length (filter (\<lambda>p. fst p = 0) (settled connectedService)) \<le> 1
   \<and> (0, Resolved) \<in> set (settled connectedService)
   \<and> connectionAttempts connectedService = 0 \<and> reconnectDelay connectedService = 1000"
proof -
  have a: "run [CallConnect ''ws://host'' noOptions False, TransportOpens 0] createWebSocketService
             = Some connectedService"
    by (simp add: connectedService_def connect_valid validUrl_def createWebSocketService_def
          readyStateOf_def setTimeout_def Let_def)
  have b: "settled connectedService = [(0, Resolved)]"
    by (simp add: connectedService_def onopen_def settled_connect validUrl_def
          createWebSocketService_def)
  have c: "connectionAttempts connectedService = 0" "reconnectDelay connectedService = 1000"
    by (simp_all add: connectedService_def onopen_def)
  show ?thesis
    using a b c connect_settles_once [OF a, of 0] by simp
qed

subsection \<open>\<open>disconnect\<close>\<close>

text \<open>
  C5. In every state that a run of a new service reaches, \<open>disconnect\<close> clears the socket
  handle, marks the service not connected and cancels the reconnection timer, also when
  \<open>close\<close> throws (then it fires an \<open>error\<close> event as well). It fires no \<open>disconnect\<close>
  event itself, and a second \<open>disconnect\<close> right after it changes nothing at all: no event,
  no error.
\<close>

theorem disconnect_idempotent:
  assumes "run evs createWebSocketService = Some s"
  shows "socket (disconnect closeThrows s) = None
   \<and> \<not> isConnected (disconnect closeThrows s)
   \<and> reconnectTimeout (disconnect closeThrows s) = None
   \<and> (\<forall>t. reconnectTimeout s = Some t \<longrightarrow> timers (disconnect closeThrows s) t = None)
   \<and> filter (\<lambda>e. fst e = ''disconnect'') (emitted (disconnect closeThrows s))
       = filter (\<lambda>e. fst e = ''disconnect'') (emitted s)
   \<and> (\<forall>k. closeThrows \<and> socket s = Some k
            \<and> (readyStateOf s k = OPEN \<or> readyStateOf s k = CONNECTING)
          \<longrightarrow> emitted (disconnect closeThrows s) = emitted s @ [(''error'', DisconnectError CloseThrew)])
   \<and> disconnect closeThrowsAgain (disconnect closeThrows s) = disconnect closeThrows s"
proof -
  have inv: "lifecycleInv s"
    using inv_run [OF inv_init assms] .
  have a: "\<not> isConnected (disconnect closeThrows s)"
    using lifecycleInvD(8) [OF inv] by auto
  have b: "disconnect closeThrowsAgain s1 = s1" if "socket s1 = None" "reconnectTimeout s1 = None" for s1
    using that by (simp add: disconnect_def)
  have c: "filter (\<lambda>e. fst e = ''disconnect'') (emitted (disconnect closeThrows s))
       = filter (\<lambda>e. fst e = ''disconnect'') (emitted s)"
    by (simp add: emitted_disconnect split: option.splits)
  have d: "\<forall>k. closeThrows \<and> socket s = Some k
            \<and> (readyStateOf s k = OPEN \<or> readyStateOf s k = CONNECTING)
          \<longrightarrow> emitted (disconnect closeThrows s) = emitted s @ [(''error'', DisconnectError CloseThrew)]"
    by (simp add: emitted_disconnect readyStateOf_def)
  have e: "\<forall>t. reconnectTimeout s = Some t \<longrightarrow> timers (disconnect closeThrows s) t = None"
    by simp
  show ?thesis
    using a b c d e by simp
qed

theorem disconnect_idempotent_witness:
  "run [CallConnect ''ws://host'' noOptions False, TransportOpens 0] createWebSocketService
     = Some connectedService
   \<and> isConnected connectedService \<and> socket connectedService = Some 0
   \<and> socket (disconnect True connectedService) = None
   \<and> \<not> isConnected (disconnect True connectedService)
   \<and> disconnect False (disconnect True connectedService) = disconnect True connectedService
   \<and> emitted (disconnect True connectedService)
       = emitted connectedService @ [(''error'', DisconnectError CloseThrew)]"
proof -
  have a: "run [CallConnect ''ws://host'' noOptions False, TransportOpens 0] createWebSocketService
             = Some connectedService"
    by (simp add: connectedService_def connect_valid validUrl_def createWebSocketService_def
          readyStateOf_def setTimeout_def Let_def)
  have b: "isConnected connectedService" "socket connectedService = Some 0"
    "readyStateOf connectedService 0 = OPEN"
    by (simp_all add: connectedService_def onopen_def connect_valid validUrl_def readyStateOf_def
          createWebSocketService_def Let_def)
  show ?thesis
    using a b disconnect_idempotent [OF a, of True False] by simp
qed

subsection \<open>Attempts that fail, one after the other\<close>

lemma attempt_fails:
  assumes "inFlight i k r d s" "code \<noteq> 1000" "i < 5"
  shows "\<exists>s1. run (failedAttempt k (timedOut, code)) s = Some s1
          \<and> waiting i (Suc k) (if r \<and> timedOut then min (d * (3 / 2)) MAX_RECONNECT_DELAY else d) s1"
proof (cases timedOut)
  case True
  let ?s1 = "connectionTimeout k (clearTimeout (ConnectionTimer k) s)"
  let ?s2 = "onclose k code [] False (setReadyState k CLOSED ?s1)"
  have run: "run (failedAttempt k (timedOut, code)) s = Some ?s2"
    using assms(1) True
    by (simp add: inFlight_def readyStateOf_def connectionTimeout_transports)
  have "waiting i (Suc k) (if r \<and> timedOut then min (d * (3 / 2)) MAX_RECONNECT_DELAY else d) ?s2"
    using assms True
    apply (simp add: inFlight_def waiting_def onclose_def Let_def MAX_RECONNECT_ATTEMPTS_def)
    apply (simp add: connectionTimeout_def Let_def readyStateOf_def reconnectDelay_rejectConnect
        split: option.splits)
    done
  with run show ?thesis by blast
next
  case False
  let ?s1 = "onerror k s"
  let ?s2 = "onclose k code [] False (setReadyState k CLOSED ?s1)"
  have run: "run (failedAttempt k (timedOut, code)) s = Some ?s2"
    using assms(1) False
    by (simp add: inFlight_def readyStateOf_def onerror_def Let_def)
  have "waiting i (Suc k) (if r \<and> timedOut then min (d * (3 / 2)) MAX_RECONNECT_DELAY else d) ?s2"
    using assms False
    apply (simp add: inFlight_def waiting_def onclose_def Let_def MAX_RECONNECT_ATTEMPTS_def)
    apply (simp add: onerror_def Let_def split: option.splits)
    done
  with run show ?thesis by blast
qed

lemma last_attempt_fails:
  assumes "inFlight 5 k r d s" "code \<noteq> 1000"
  shows "\<exists>s1. run (failedAttempt k (timedOut, code)) s = Some s1 \<and> givenUp s1"
proof (cases timedOut)
  case True
  let ?s1 = "connectionTimeout k (clearTimeout (ConnectionTimer k) s)"
  let ?s2 = "onclose k code [] False (setReadyState k CLOSED ?s1)"
  have run: "run (failedAttempt k (timedOut, code)) s = Some ?s2"
    using assms(1) True
    by (simp add: inFlight_def readyStateOf_def connectionTimeout_transports)
  have "givenUp ?s2"
    using assms True
    apply (simp add: inFlight_def givenUp_def onclose_def Let_def MAX_RECONNECT_ATTEMPTS_def)
    apply (simp add: connectionTimeout_def Let_def readyStateOf_def filter_empty_conv
        split: option.splits)
    apply blast
    done
  with run show ?thesis by blast
next
  case False
  let ?s1 = "onerror k s"
  let ?s2 = "onclose k code [] False (setReadyState k CLOSED ?s1)"
  have run: "run (failedAttempt k (timedOut, code)) s = Some ?s2"
    using assms(1) False
    by (simp add: inFlight_def readyStateOf_def onerror_def Let_def)
  have "givenUp ?s2"
    using assms False
    apply (simp add: inFlight_def givenUp_def onclose_def Let_def MAX_RECONNECT_ATTEMPTS_def)
    apply (simp add: onerror_def Let_def filter_empty_conv split: option.splits)
    apply blast
    done
  with run show ?thesis by blast
qed

lemma retry_fires:
  assumes "waiting i n d s"
  shows "\<exists>s1. step (TimerFires (ReconnectTimer n) False) s = Some s1
          \<and> inFlight (Suc i) (Suc n) True d s1"
proof -
  let ?s0 = "triggerEvent ''reconnect'' (ReconnectInfo (connectionAttempts s) (reconnectDelay s) (url s))
               (clearTimeout (ReconnectTimer n) s)"
  let ?s1 = "connect (url s) noOptions True False ?s0"
  have run: "step (TimerFires (ReconnectTimer n) False) s = Some ?s1"
    using assms by (simp add: waiting_def reconnectNow_def)
  have "inFlight (Suc i) (Suc n) True d ?s1"
    using assms
    apply (simp add: inFlight_def waiting_def readyState_connect settled_connect)
    apply (cases "socket s")
     apply (simp_all add: connect_valid Let_def noOptions_def emitted_disconnect)
    done
  with run show ?thesis by blast
qed

lemma attempts_fail:
  assumes "inFlight i k r d s" "i + length fs \<le> 5" "\<forall>g \<in> set (f # fs). snd g \<noteq> 1000"
  shows "\<exists>s1. run (retries k (f # fs)) s = Some s1
          \<and> (if i + length fs < 5
              then waiting (i + length fs) (Suc (k + 2 * length fs)) (delayAfter r d (f # fs)) s1
              else givenUp s1)"
  using assms
proof (induction fs arbitrary: i k r d s f)
  case Nil
  obtain timedOut code where f: "f = (timedOut, code)"
    by (cases f)
  with Nil.prems(3) have code: "code \<noteq> 1000"
    by simp
  show ?case
  proof (cases "i < 5")
    case True
    from attempt_fails [OF Nil.prems(1) code True, of timedOut] show ?thesis
      using True by (simp add: f)
  next
    case False
    with Nil.prems(2) have "i = 5" by simp
    with last_attempt_fails [OF _ code, of k r d s timedOut] Nil.prems(1) show ?thesis
      by (simp add: f)
  qed
next
  case (Cons g fs)
  obtain timedOut code where f: "f = (timedOut, code)"
    by (cases f)
  with Cons.prems(3) have code: "code \<noteq> 1000"
    by simp
  from Cons.prems(2) have i: "i < 5"
    by simp
  let ?d = "if r \<and> timedOut then min (d * (3 / 2)) MAX_RECONNECT_DELAY else d"
  from attempt_fails [OF Cons.prems(1) code i, of timedOut]
  obtain s1 where s1: "run (failedAttempt k (timedOut, code)) s = Some s1"
    and w: "waiting i (Suc k) ?d s1"
    by blast
  from retry_fires [OF w]
  obtain s2 where s2: "step (TimerFires (ReconnectTimer (Suc k)) False) s1 = Some s2"
    and p: "inFlight (Suc i) (Suc (Suc k)) True ?d s2"
    by blast
  have "Suc i + length fs \<le> 5" "\<forall>h \<in> set (g # fs). snd h \<noteq> 1000"
    using Cons.prems(2,3) by simp_all
  from Cons.IH [OF p this]
  obtain s3 where s3: "run (retries (Suc (Suc k)) (g # fs)) s2 = Some s3"
    and final: "if Suc i + length fs < 5
                then waiting (Suc i + length fs) (Suc (Suc (Suc k) + 2 * length fs))
                       (delayAfter True ?d (g # fs)) s3
                else givenUp s3"
    by blast
  have "run (retries k (f # g # fs)) s = Some s3"
    using s1 s2 s3 by (simp only: f retries.simps run_append run.simps option.case)
  moreover have e: "delayAfter r d (f # g # fs) = delayAfter True ?d (g # fs)"
    "i + length (g # fs) = Suc i + length fs"
    "Suc (k + 2 * length (g # fs)) = Suc (Suc (Suc k) + 2 * length fs)"
    by (simp_all only: f delayAfter.simps) simp_all
  have "if i + length (g # fs) < 5
      then waiting (i + length (g # fs)) (Suc (k + 2 * length (g # fs))) (delayAfter r d (f # g # fs)) s3
      else givenUp s3"
    by (simp only: e) (rule final)
  ultimately show ?case by blast
qed

lemma first_attempt:
  assumes "validUrl serverUrl" "\<not> noReconnect options" "\<not> unlimitedReconnect options"
  shows "inFlight 1 0 False 1000 (connect serverUrl options False False createWebSocketService)"
  using assms
  by (simp add: inFlight_def readyState_connect settled_connect)
    (simp add: connect_valid Let_def createWebSocketService_def)

lemma min_cap:
  "min (min a MAX_RECONNECT_DELAY * (3 / 2)) MAX_RECONNECT_DELAY = min (a * (3 / 2)) MAX_RECONNECT_DELAY"
  by (simp add: min_def MAX_RECONNECT_DELAY_def)

lemma backoff_closed_form:
  "((\<lambda>d. min (d * (3 / 2)) MAX_RECONNECT_DELAY) ^^ n) 1000 = min (1000 * (3 / 2) ^ n) MAX_RECONNECT_DELAY"
proof (induction n)
  case 0
  show ?case by (simp add: MAX_RECONNECT_DELAY_def)
next
  case (Suc n)
  let ?f = "\<lambda>d. min (d * (3 / 2)) MAX_RECONNECT_DELAY"
  have "(?f ^^ Suc n) 1000 = ?f ((?f ^^ n) 1000)"
    by (simp only: funpow.simps o_apply)
  also have "\<dots> = min (min (1000 * (3 / 2) ^ n) MAX_RECONNECT_DELAY * (3 / 2)) MAX_RECONNECT_DELAY"
    by (simp only: Suc.IH)
  also have "\<dots> = min (1000 * (3 / 2) ^ n * (3 / 2)) MAX_RECONNECT_DELAY"
    by (rule min_cap)
  also have "1000 * (3 / 2) ^ n * (3 / 2) = (1000::rat) * (3 / 2) ^ Suc n"
    by simp
  finally show ?case .
qed

lemma delayAfter_timeouts:
  "\<forall>f \<in> set fs. fst f \<Longrightarrow>
     delayAfter True d fs = ((\<lambda>d. min (d * (3 / 2)) MAX_RECONNECT_DELAY) ^^ length fs) d"
proof (induction fs arbitrary: d)
  case Nil
  show ?case by simp
next
  case (Cons f fs)
  obtain timedOut code where f: "f = (timedOut, code)"
    by (cases f)
  let ?f = "\<lambda>d. min (d * (3 / 2)) MAX_RECONNECT_DELAY"
  from Cons.prems have timedOut: "timedOut" and rest: "\<forall>f \<in> set fs. fst f"
    by (simp_all add: f)
  have "delayAfter True d (f # fs) = delayAfter True (?f d) fs"
    by (simp only: f delayAfter.simps timedOut simp_thms if_True)
  also have "\<dots> = (?f ^^ length fs) (?f d)"
    using rest by (rule Cons.IH)
  also have "\<dots> = (?f ^^ Suc (length fs)) d"
    by (simp only: funpow_Suc_right o_apply)
  also have "Suc (length fs) = length (f # fs)"
    by simp
  finally show ?case .
qed

lemma first_loss:
  assumes "validUrl serverUrl" "\<not> noReconnect options" "code \<noteq> 1000"
  shows "\<exists>s. run [CallConnect serverUrl options False, TransportOpens 0,
                  TransportCloses 0 code reason wasClean] createWebSocketService = Some s
          \<and> waiting 0 1 1000 s"
proof -
  let ?s1 = "connect serverUrl options False False createWebSocketService"
  let ?s2 = "onopen 0 (setReadyState 0 OPEN ?s1)"
  let ?s3 = "onclose 0 code reason wasClean (setReadyState 0 CLOSED ?s2)"
  have f: "socket ?s1 = Some 0" "readyState (transports ?s1 0) = CONNECTING"
    "opts (transports ?s1 0) = options" "nextId ?s1 = 1" "settled ?s1 = []" "emitted ?s1 = []"
    "url ?s1 = serverUrl" "reconnectTimeout ?s1 = None"
    "timers ?s1 = (\<lambda>t. None)(ConnectionTimer 0 \<mapsto> timeoutOr options 10000)"
    "\<not> isConnected ?s1" "connectionAttempts ?s1 = 1" "reconnectDelay ?s1 = 1000"
    using assms(1) by (simp_all add: connect_valid Let_def new_service)
  have "run [CallConnect serverUrl options False, TransportOpens 0,
             TransportCloses 0 code reason wasClean] createWebSocketService = Some ?s3"
    by (simp add: f readyStateOf_def)
  moreover have "waiting 0 1 1000 ?s3"
    using assms by (simp add: waiting_def onclose_def onopen_def Let_def f MAX_RECONNECT_ATTEMPTS_def)
  ultimately show ?thesis by blast
qed

text \<open>
  C7. A new service, \<open>connect\<close> with a valid URL and neither \<open>noReconnect\<close> nor
  \<open>unlimitedReconnect\<close>, and five attempts that fail one after the other (each by timeout
  or by a transport error, each closed with a code other than 1000), the first made by the
  caller and the others by the reconnection timer: after the fifth, no timer is armed, so
  nothing is scheduled, and the maximum-attempts error was fired exactly once. After fewer
  than five the reconnection timer is armed and that error was not fired. The same holds
  after a connection that was made and lost, for five attempts of the reconnection timer.
\<close>

theorem gives_up_after_five_attempts:
  assumes "validUrl serverUrl" "\<not> noReconnect options" "\<not> unlimitedReconnect options"
    and "length fs = 5" "\<forall>f \<in> set fs. snd f \<noteq> 1000" "0 < n" "n < 5" "code \<noteq> 1000"
  shows "(\<exists>s. run (CallConnect serverUrl options False # retries 0 fs) createWebSocketService = Some s
            \<and> connectionAttempts s = 5 \<and> (\<forall>t. timers s t = None)
            \<and> filter (\<lambda>e. e = (''error'', MaxReconnectAttempts)) (emitted s)
                = [(''error'', MaxReconnectAttempts)])
       \<and> (\<exists>s. run (CallConnect serverUrl options False # retries 0 (take n fs)) createWebSocketService
                = Some s
            \<and> connectionAttempts s = n
            \<and> reconnectTimeout s = Some (ReconnectTimer (2 * n - 1))
            \<and> timers s (ReconnectTimer (2 * n - 1)) = Some (reconnectDelay s)
            \<and> (''error'', MaxReconnectAttempts) \<notin> set (emitted s))
       \<and> (\<exists>s. run ([CallConnect serverUrl options False, TransportOpens 0,
                    TransportCloses 0 code reason wasClean, TimerFires (ReconnectTimer 1) False]
                   @ retries 2 fs) createWebSocketService = Some s
            \<and> connectionAttempts s = 5 \<and> (\<forall>t. timers s t = None)
            \<and> filter (\<lambda>e. e = (''error'', MaxReconnectAttempts)) (emitted s)
                = [(''error'', MaxReconnectAttempts)])"
proof -
  let ?s0 = "connect serverUrl options False False createWebSocketService"
  have p: "inFlight 1 0 False 1000 ?s0"
    using assms(1-3) by (rule first_attempt)
  from assms(4) obtain f fs1 where fs: "fs = f # fs1" "length fs1 = 4"
    by (cases fs) simp_all
  have five: "1 + length fs1 \<le> 5" "\<forall>g \<in> set (f # fs1). snd g \<noteq> 1000"
    using fs assms(5) by simp_all
  from attempts_fail [OF p five]
  obtain s where "run (retries 0 fs) ?s0 = Some s" "givenUp s"
    using fs by auto
  then have a: "\<exists>s. run (CallConnect serverUrl options False # retries 0 fs) createWebSocketService = Some s
            \<and> connectionAttempts s = 5 \<and> (\<forall>t. timers s t = None)
            \<and> filter (\<lambda>e. e = (''error'', MaxReconnectAttempts)) (emitted s)
                = [(''error'', MaxReconnectAttempts)]"
    by (simp add: givenUp_def)
  from assms(6,7) obtain m where n: "n = Suc m" "m < 4"
    by (cases n) simp_all
  have take: "take n fs = f # take m fs1"
    by (simp add: fs n)
  have "1 + length (take m fs1) \<le> 5" "\<forall>g \<in> set (f # take m fs1). snd g \<noteq> 1000"
    using fs assms(5) n by (auto dest: in_set_takeD)
  from attempts_fail [OF p this]
  obtain s1 where "run (retries 0 (take n fs)) ?s0 = Some s1"
    "waiting n (Suc (2 * m)) (delayAfter False 1000 (take n fs)) s1"
    using fs n take by (auto simp add: min_def)
  then have b: "\<exists>s. run (CallConnect serverUrl options False # retries 0 (take n fs)) createWebSocketService
                = Some s
            \<and> connectionAttempts s = n
            \<and> reconnectTimeout s = Some (ReconnectTimer (2 * n - 1))
            \<and> timers s (ReconnectTimer (2 * n - 1)) = Some (reconnectDelay s)
            \<and> (''error'', MaxReconnectAttempts) \<notin> set (emitted s)"
    using n by (auto simp add: waiting_def)
  from first_loss [OF assms(1,2,8), of reason wasClean]
  obtain s3 where s3: "run [CallConnect serverUrl options False, TransportOpens 0,
                  TransportCloses 0 code reason wasClean] createWebSocketService = Some s3"
    and w: "waiting 0 1 1000 s3"
    by blast
  from retry_fires [OF w]
  obtain s4 where s4: "step (TimerFires (ReconnectTimer 1) False) s3 = Some s4"
    and p0: "inFlight (Suc 0) (Suc 1) True 1000 s4"
    by blast
  have "inFlight 1 2 True 1000 s4"
    using p0 by (simp add: eval_nat_numeral)
  from attempts_fail [OF this five]
  obtain s5 where s5: "run (retries 2 fs) s4 = Some s5" and g: "givenUp s5"
    using fs by auto
  have "run ([CallConnect serverUrl options False, TransportOpens 0,
              TransportCloses 0 code reason wasClean]
             @ TimerFires (ReconnectTimer 1) False # retries 2 fs) createWebSocketService = Some s5"
    using s3 s4 s5 by (simp only: run_append run.simps option.case)
  then have "run ([CallConnect serverUrl options False, TransportOpens 0,
                   TransportCloses 0 code reason wasClean, TimerFires (ReconnectTimer 1) False]
                  @ retries 2 fs) createWebSocketService = Some s5"
    by simp
  with g have c: "\<exists>s. run ([CallConnect serverUrl options False, TransportOpens 0,
                    TransportCloses 0 code reason wasClean, TimerFires (ReconnectTimer 1) False]
                   @ retries 2 fs) createWebSocketService = Some s
            \<and> connectionAttempts s = 5 \<and> (\<forall>t. timers s t = None)
            \<and> filter (\<lambda>e. e = (''error'', MaxReconnectAttempts)) (emitted s)
                = [(''error'', MaxReconnectAttempts)]"
    unfolding givenUp_def by blast
  from a b c show ?thesis by (intro conjI)
qed

theorem gives_up_after_five_attempts_witness:
  "(\<exists>s. run (CallConnect ''ws://host'' noOptions False
              # retries 0 [(True, 1006), (False, 1006), (True, 1001), (True, 1006), (False, 1011)])
            createWebSocketService = Some s
        \<and> connectionAttempts s = 5 \<and> (\<forall>t. timers s t = None)
        \<and> filter (\<lambda>e. e = (''error'', MaxReconnectAttempts)) (emitted s)
            = [(''error'', MaxReconnectAttempts)])
   \<and> (\<exists>s. run (CallConnect ''ws://host'' noOptions False
              # retries 0 (take 2 [(True, 1006), (False, 1006), (True, 1001), (True, 1006), (False, 1011)]))
            createWebSocketService = Some s
        \<and> connectionAttempts s = 2
        \<and> reconnectTimeout s = Some (ReconnectTimer (2 * 2 - 1))
        \<and> timers s (ReconnectTimer (2 * 2 - 1)) = Some (reconnectDelay s)
        \<and> (''error'', MaxReconnectAttempts) \<notin> set (emitted s))
   \<and> (\<exists>s. run ([CallConnect ''ws://host'' noOptions False, TransportOpens 0,
                TransportCloses 0 1006 [] False, TimerFires (ReconnectTimer 1) False]
               @ retries 2 [(True, 1006), (False, 1006), (True, 1001), (True, 1006), (False, 1011)])
            createWebSocketService = Some s
        \<and> connectionAttempts s = 5 \<and> (\<forall>t. timers s t = None)
        \<and> filter (\<lambda>e. e = (''error'', MaxReconnectAttempts)) (emitted s)
            = [(''error'', MaxReconnectAttempts)])"
proof (rule gives_up_after_five_attempts)
  show "validUrl ''ws://host''"
    by (simp add: validUrl_def)
  show "\<not> noReconnect noOptions" "\<not> unlimitedReconnect noOptions"
    by (simp_all add: noOptions_def)
  show "length [(True, 1006), (False, 1006), (True, 1001), (True, 1006), (False, 1011::nat)] = 5"
    by simp
  show "\<forall>f \<in> set [(True, 1006), (False, 1006), (True, 1001), (True, 1006), (False, 1011::nat)].
          snd f \<noteq> 1000"
    by simp
  show "0 < (2::nat)" "(2::nat) < 5" "(1006::nat) \<noteq> 1000"
    by simp_all
qed

text \<open>
  C6, as stated, fails. After a connection was lost and one reconnection attempt failed
  by timeout, the next reconnection is scheduled with 1500 ms; the claim gives
  \<open>min(1000 * 1.5^(1-1), 30000) = 1000\<close> for \<open>N = 1\<close>.
\<close>

theorem second_delay_is_1500:
  "run [CallConnect ''ws://host'' noOptions False, TransportOpens 0,
        TransportCloses 0 1006 [] False, TimerFires (ReconnectTimer 1) False,
        TimerFires (ConnectionTimer 2) False, TransportCloses 2 1006 [] False]
     createWebSocketService = Some failedOnceService
   \<and> settled failedOnceService = [(0, Resolved), (2, Rejected (ConnectionTimeout ''ws://host''))]
   \<and> reconnectTimeout failedOnceService = Some (ReconnectTimer 3)
   \<and> timers failedOnceService (ReconnectTimer 3) = Some 1500
   \<and> (1500::rat) \<noteq> min (1000 * (3 / 2) ^ (1 - 1)) 30000"
  by (simp add: failedOnceService_def retryingService_def lostService_def connectedService_def
        service_defs)

text \<open>
  C6, amended. After a connection was lost and \<open>N\<close> reconnection attempts (\<open>1 \<le> N < 5\<close>)
  failed one after the other by connection timeout, which rejects the promise of each, the
  next reconnection is scheduled with \<open>min(1000 * 1.5^N, 30000)\<close> ms. The delay of a new
  service is 1000 ms; rejecting the promise of an attempt made by the reconnection timer
  multiplies it by 1.5, once, with 30000 as the cap; so after \<open>k\<close> such rejections it is
  \<open>min(1000 * 1.5^k, 30000)\<close>.
\<close>

theorem backoff_after_failed_reconnections:
  assumes "validUrl serverUrl" "\<not> noReconnect options" "code \<noteq> 1000"
    and "1 \<le> N" "N < 5" "length fs = N" "\<forall>f \<in> set fs. fst f \<and> snd f \<noteq> 1000"
  shows "(\<exists>s. run ([CallConnect serverUrl options False, TransportOpens 0,
                    TransportCloses 0 code reason wasClean, TimerFires (ReconnectTimer 1) False]
                   @ retries 2 fs) createWebSocketService = Some s
            \<and> connectionAttempts s = N
            \<and> reconnectTimeout s = Some (ReconnectTimer (2 * N + 1))
            \<and> timers s (ReconnectTimer (2 * N + 1)) = Some (min (1000 * (3 / 2) ^ N) 30000))
       \<and> (\<forall>c e s0. reconnectDelay (rejectConnect c e s0) =
             (if retried s0 c \<and> c \<notin> fst ` set (settled s0)
              then min (reconnectDelay s0 * (3 / 2)) 30000 else reconnectDelay s0))
       \<and> (\<forall>k. ((\<lambda>d. min (d * (3 / 2)) 30000) ^^ k) 1000 = min (1000 * (3 / 2) ^ k) (30000::rat))
       \<and> reconnectDelay createWebSocketService = 1000"
proof -
  from first_loss [OF assms(1-3), of reason wasClean]
  obtain s3 where s3: "run [CallConnect serverUrl options False, TransportOpens 0,
                  TransportCloses 0 code reason wasClean] createWebSocketService = Some s3"
    and w: "waiting 0 1 1000 s3"
    by blast
  from retry_fires [OF w]
  obtain s4 where s4: "step (TimerFires (ReconnectTimer 1) False) s3 = Some s4"
    and p0: "inFlight (Suc 0) (Suc 1) True 1000 s4"
    by blast
  have p: "inFlight 1 2 True 1000 s4"
    using p0 by (simp add: eval_nat_numeral)
  from assms(4,6) obtain f fs1 where fs: "fs = f # fs1" "Suc (length fs1) = N"
    by (cases fs) auto
  have len: "1 + length fs1 \<le> 5" "\<forall>g \<in> set (f # fs1). snd g \<noteq> 1000"
    using fs assms(5,7) by auto
  have less: "1 + length fs1 < 5"
    using fs assms(5) by simp
  from attempts_fail [OF p len]
  obtain s where s: "run (retries 2 fs) s4 = Some s"
    and final0: "waiting (1 + length fs1) (Suc (2 + 2 * length fs1)) (delayAfter True 1000 fs) s"
    unfolding fs(1) [symmetric] using less by (simp only: if_True) blast
  have "1 + length fs1 = N" "Suc (2 + 2 * length fs1) = 2 * N + 1"
    using fs(2) by simp_all
  with final0 have final: "waiting N (2 * N + 1) (delayAfter True 1000 fs) s"
    by (simp only:)
  have "\<forall>f \<in> set fs. fst f"
    using assms(7) by simp
  then have "delayAfter True 1000 fs
      = ((\<lambda>d. min (d * (3 / 2)) MAX_RECONNECT_DELAY) ^^ length fs) 1000"
    by (rule delayAfter_timeouts)
  also have "\<dots> = ((\<lambda>d. min (d * (3 / 2)) MAX_RECONNECT_DELAY) ^^ N) 1000"
    by (simp only: assms(6))
  also have "\<dots> = min (1000 * (3 / 2) ^ N) MAX_RECONNECT_DELAY"
    by (rule backoff_closed_form)
  finally have "delayAfter True 1000 fs = min (1000 * (3 / 2) ^ N) 30000"
    by (simp only: MAX_RECONNECT_DELAY_def)
  with final have "waiting N (2 * N + 1) (min (1000 * (3 / 2) ^ N) 30000) s"
    by (simp only:)
  moreover have "run ([CallConnect serverUrl options False, TransportOpens 0,
                    TransportCloses 0 code reason wasClean, TimerFires (ReconnectTimer 1) False]
                   @ retries 2 fs) createWebSocketService = Some s"
  proof -
    have "run ([CallConnect serverUrl options False, TransportOpens 0,
                TransportCloses 0 code reason wasClean]
               @ TimerFires (ReconnectTimer 1) False # retries 2 fs) createWebSocketService = Some s"
      using s3 s4 s by (simp only: run_append run.simps option.case)
    then show ?thesis by simp
  qed
  ultimately have a: "\<exists>s. run ([CallConnect serverUrl options False, TransportOpens 0,
                    TransportCloses 0 code reason wasClean, TimerFires (ReconnectTimer 1) False]
                   @ retries 2 fs) createWebSocketService = Some s
            \<and> connectionAttempts s = N
            \<and> reconnectTimeout s = Some (ReconnectTimer (2 * N + 1))
            \<and> timers s (ReconnectTimer (2 * N + 1)) = Some (min (1000 * (3 / 2) ^ N) 30000)"
    unfolding waiting_def by blast
  have b: "\<forall>c e s0. reconnectDelay (rejectConnect c e s0) =
             (if retried s0 c \<and> c \<notin> fst ` set (settled s0)
              then min (reconnectDelay s0 * (3 / 2)) 30000 else reconnectDelay s0)"
    by (simp add: reconnectDelay_rejectConnect MAX_RECONNECT_DELAY_def)
  have c: "\<forall>k. ((\<lambda>d. min (d * (3 / 2)) 30000) ^^ k) 1000 = min (1000 * (3 / 2) ^ k) (30000::rat)"
    by (intro allI) (rule backoff_closed_form [unfolded MAX_RECONNECT_DELAY_def])
  have d: "reconnectDelay createWebSocketService = 1000"
    by simp
  from a b c d show ?thesis by (intro conjI)
qed

theorem backoff_after_failed_reconnections_witness:
  "\<exists>s. run ([CallConnect ''ws://host'' noOptions False, TransportOpens 0,
               TransportCloses 0 1006 [] False, TimerFires (ReconnectTimer 1) False]
              @ retries 2 [(True, 1006), (True, 1006)]) createWebSocketService = Some s
       \<and> connectionAttempts s = 2
       \<and> reconnectTimeout s = Some (ReconnectTimer (2 * 2 + 1))
       \<and> timers s (ReconnectTimer (2 * 2 + 1)) = Some (min (1000 * (3 / 2) ^ 2) 30000)"
proof (rule conjunct1 [OF backoff_after_failed_reconnections])
  show "validUrl ''ws://host''"
    by (simp add: validUrl_def)
  show "\<not> noReconnect noOptions"
    by (simp add: noOptions_def)
  show "(1006::nat) \<noteq> 1000" "1 \<le> (2::nat)" "(2::nat) < 5"
    by simp_all
  show "length [(True, 1006::nat), (True, 1006)] = 2"
    by simp
  show "\<forall>f \<in> set [(True, 1006::nat), (True, 1006)]. fst f \<and> snd f \<noteq> 1000"
    by simp
qed

subsection \<open>The close code and the reconnection policy\<close>

text \<open>
  C8. When a transport closes with code 1000, or when \<open>noReconnect\<close> was set on the
  \<open>connect\<close> call that made it, the \<open>close\<close> handler arms no reconnection timer and fires only
  the \<open>disconnect\<close> event. With any other code and without \<open>noReconnect\<close> it applies the
  policy: it arms a reconnection timer with the current delay, or, at the ceiling, fires
  the maximum-attempts error. The \<open>connect\<close> call that a reconnection timer makes passes no
  options, so \<open>noReconnect\<close> is not set for the transport it makes and the policy applies to
  it as well.
\<close>

theorem close_code_decides_reconnection:
  "step (TransportCloses c code reason wasClean) s = Some s1 \<Longrightarrow>
     (code = 1000 \<or> noReconnect (opts (transports s c)) \<longrightarrow>
        reconnectTimeout s1 = reconnectTimeout s
      \<and> (\<forall>n. timers s1 (ReconnectTimer n) = timers s (ReconnectTimer n))
      \<and> emitted s1 = emitted s @ [(''disconnect'', DisconnectInfo code reason wasClean)])
   \<and> (code \<noteq> 1000 \<and> \<not> noReconnect (opts (transports s c)) \<longrightarrow>
        (if connectionAttempts s < 5 \<or> unlimitedReconnect (opts (transports s c))
         then reconnectTimeout s1 = Some (ReconnectTimer (nextId s))
            \<and> timers s1 (ReconnectTimer (nextId s)) = Some (reconnectDelay s)
            \<and> emitted s1 = emitted s @ [(''disconnect'', DisconnectInfo code reason wasClean)]
         else reconnectTimeout s1 = reconnectTimeout s
            \<and> (\<forall>n. timers s1 (ReconnectTimer n) = timers s (ReconnectTimer n))
            \<and> emitted s1 = emitted s @ [(''disconnect'', DisconnectInfo code reason wasClean),
                                        (''error'', MaxReconnectAttempts)]))
   \<and> (\<forall>constructorThrows. validUrl (url s1) \<and> \<not> constructorThrows \<longrightarrow>
        socket (reconnectNow constructorThrows s1) = Some (nextId s1)
      \<and> readyStateOf (reconnectNow constructorThrows s1) (nextId s1) = CONNECTING
      \<and> \<not> noReconnect (opts (transports (reconnectNow constructorThrows s1) (nextId s1))))"
proof -
  assume "step (TransportCloses c code reason wasClean) s = Some s1"
  then have s1: "s1 = onclose c code reason wasClean (setReadyState c CLOSED s)"
    by (simp split: if_splits)
  have policy: "(code = 1000 \<or> noReconnect (opts (transports s c)) \<longrightarrow>
        reconnectTimeout s1 = reconnectTimeout s
      \<and> (\<forall>n. timers s1 (ReconnectTimer n) = timers s (ReconnectTimer n))
      \<and> emitted s1 = emitted s @ [(''disconnect'', DisconnectInfo code reason wasClean)])
   \<and> (code \<noteq> 1000 \<and> \<not> noReconnect (opts (transports s c)) \<longrightarrow>
        (if connectionAttempts s < 5 \<or> unlimitedReconnect (opts (transports s c))
         then reconnectTimeout s1 = Some (ReconnectTimer (nextId s))
            \<and> timers s1 (ReconnectTimer (nextId s)) = Some (reconnectDelay s)
            \<and> emitted s1 = emitted s @ [(''disconnect'', DisconnectInfo code reason wasClean)]
         else reconnectTimeout s1 = reconnectTimeout s
            \<and> (\<forall>n. timers s1 (ReconnectTimer n) = timers s (ReconnectTimer n))
            \<and> emitted s1 = emitted s @ [(''disconnect'', DisconnectInfo code reason wasClean),
                                        (''error'', MaxReconnectAttempts)]))"
    by (simp add: s1 onclose_def Let_def MAX_RECONNECT_ATTEMPTS_def)
  have again: "\<forall>constructorThrows. validUrl (url s1) \<and> \<not> constructorThrows \<longrightarrow>
        socket (reconnectNow constructorThrows s1) = Some (nextId s1)
      \<and> readyStateOf (reconnectNow constructorThrows s1) (nextId s1) = CONNECTING
      \<and> \<not> noReconnect (opts (transports (reconnectNow constructorThrows s1) (nextId s1)))"
    by (simp add: reconnectNow_def connect_valid Let_def readyStateOf_def noOptions_def)
  from policy again show ?thesis by blast
qed

theorem close_code_decides_reconnection_witness:
  "step (TransportCloses 0 1006 [] False) connectedService = Some lostService
   \<and> \<not> noReconnect (opts (transports connectedService 0))
   \<and> connectionAttempts connectedService < 5
   \<and> reconnectTimeout lostService = Some (ReconnectTimer (nextId connectedService))
   \<and> timers lostService (ReconnectTimer (nextId connectedService))
       = Some (reconnectDelay connectedService)"
proof -
  have a: "readyStateOf connectedService 0 = OPEN" "\<not> noReconnect (opts (transports connectedService 0))"
    "connectionAttempts connectedService = 0"
    by (simp_all add: connectedService_def onopen_def connect_valid validUrl_def readyStateOf_def
          createWebSocketService_def noOptions_def Let_def)
  have b: "step (TransportCloses 0 1006 [] False) connectedService = Some lostService"
    by (simp add: a lostService_def)
  show ?thesis
    using a b close_code_decides_reconnection [OF b] by simp
qed

end
